theory Spec2Isabelle
  imports Complex_Main
begin

section \<open>Loss functions of the SPLADE trainers (splade/hf/trainers.py)\<close>

text \<open>
  Tensors are nested lists of reals: a vector is a \<open>real list\<close>, a matrix a list of rows.
  Arithmetic is the exact arithmetic of the reals, so rounding of the floating-point
  runtime is outside the model. What the runtime does instead of raising, namely
  producing \<open>nan\<close> or \<open>inf\<close> (the mean of an empty tensor, a division by zero), is kept:
  a scalar result is an \<open>fnum\<close>, either a finite real or \<open>NonFin\<close>.
\<close>

subsection \<open>Scalars\<close>

datatype fnum = Fin real | NonFin

fun fadd :: "fnum \<Rightarrow> fnum \<Rightarrow> fnum" where
  "fadd (Fin a) (Fin b) = Fin (a + b)"
| "fadd _ _ = NonFin"

fun fscale :: "real \<Rightarrow> fnum \<Rightarrow> fnum" where
  "fscale c (Fin a) = Fin (c * a)"
| "fscale c NonFin = NonFin"

text \<open>\<open>1 / x ** 2\<close> on tensors: \<open>inf\<close> at \<open>x = 0\<close>, no exception.\<close>

definition inv_sq :: "real \<Rightarrow> fnum" where
  "inv_sq x = (if x = 0 then NonFin else Fin (1 / x\<^sup>2))"

text \<open>\<open>Tensor.mean()\<close> of a vector: \<open>nan\<close> on an empty one.\<close>

definition mean :: "real list \<Rightarrow> fnum" where
  "mean xs = (if xs = [] then NonFin else Fin (sum_list xs / real (length xs)))"

fun all_fin :: "fnum list \<Rightarrow> real list option" where
  "all_fin [] = Some []"
| "all_fin (Fin a # xs) = (case all_fin xs of None \<Rightarrow> None | Some ys \<Rightarrow> Some (a # ys))"
| "all_fin (NonFin # xs) = None"

text \<open>
  The mean of a list of scalars (\<open>np.mean\<close> of an accumulator, \<open>.mean(dim=0)\<close> of a
  vector of row results): non-finite as soon as one entry is, or the list is empty.
\<close>

definition fmean :: "fnum list \<Rightarrow> fnum" where
  "fmean xs = (case all_fin xs of None \<Rightarrow> NonFin | Some ys \<Rightarrow> mean ys)"

subsection \<open>Sparsity terms of BaseTrainer\<close>

text \<open>
  \<open>torch.mean(torch.abs(inputs), dim=0)\<close> for a non-empty batch of rows of equal
  length: entry \<open>j\<close> is the mean over the rows of \<open>|row[j]|\<close>.
\<close>

definition mean_abs_dim0 :: "real list list \<Rightarrow> real list" where
  "mean_abs_dim0 inputs =
     map (\<lambda>j. sum_list (map (\<lambda>r. \<bar>r ! j\<bar>) inputs) / real (length inputs))
         [0..<length (hd inputs)]"

text \<open>
  \<open>_flops(inputs) = torch.sum(torch.mean(torch.abs(inputs), dim=0) ** 2)\<close>.
  On an empty batch the mean over dimension 0 is \<open>nan\<close> in every column.
\<close>

definition flops :: "real list list \<Rightarrow> fnum" where
  "flops inputs =
     (if inputs = [] then NonFin
      else Fin (sum_list (map (\<lambda>m. m\<^sup>2) (mean_abs_dim0 inputs))))"

text \<open>\<open>_L1(batch_rep) = torch.sum(torch.abs(batch_rep), dim=-1).mean()\<close>.\<close>

definition L1 :: "real list list \<Rightarrow> fnum" where
  "L1 batch_rep = mean (map (\<lambda>r. sum_list (map abs r)) batch_rep)"

text \<open>\<open>torch.count_nonzero\<close> along the last dimension, for one row.\<close>

fun count_nonzero :: "real list \<Rightarrow> nat" where
  "count_nonzero [] = 0"
| "count_nonzero (x # xs) = (if x \<noteq> 0 then Suc (count_nonzero xs) else count_nonzero xs)"

text \<open>\<open>_L0(batch_rep) = torch.count_nonzero(batch_rep, dim=-1).float().mean()\<close>.\<close>

definition L0 :: "real list list \<Rightarrow> fnum" where
  "L0 batch_rep = mean (map (\<lambda>r. real (count_nonzero r)) batch_rep)"

subsection \<open>Errors, batches and model outputs\<close>

text \<open>
  The exceptions the code can raise. \<open>ModelError\<close> stands for whatever the external
  encoder raises; the encoder itself is a parameter of every \<open>compute_loss\<close>.
\<close>

datatype error = KeyError | IndexError | RuntimeError | AttributeError
  | FileNotFoundError | ModelError

text \<open>
  The input batch is the dict handed to \<open>compute_loss\<close>; its tensors are kept
  flattened. A dual encoder returns the query vectors, of shape (batch, 1, dim) and
  kept here as one vector per query, and the document vectors, of shape
  (batch, candidates, dim). A cross encoder returns logits of shape (rows, labels).
\<close>

type_synonym batch = "string \<rightharpoonup> real list"
type_synonym dual_model = "batch \<Rightarrow> error + (real list list \<times> real list list list)"
type_synonym cross_model = "batch \<Rightarrow> error + real list list"

subsection \<open>Contrastive cross-entropy\<close>

definition log_softmax :: "real list \<Rightarrow> real list" where
  "log_softmax xs = map (\<lambda>x. x - ln (sum_list (map exp xs))) xs"

definition softmax :: "real list \<Rightarrow> real list" where
  "softmax xs = map (\<lambda>x. exp x / sum_list (map exp xs)) xs"

text \<open>
  \<open>torch.nn.CrossEntropyLoss()(scores, labels)\<close> with \<open>labels\<close> all zero and the
  default mean reduction: the mean over the rows of minus the log-softmax at class 0.
  A row without any class makes the target 0 out of bounds.
\<close>

definition ce_loss :: "real list list \<Rightarrow> error + fnum" where
  "ce_loss rows =
     (if list_ex (\<lambda>r. r = []) rows then Inl IndexError
      else Inr (mean (map (\<lambda>r. - (log_softmax r ! 0)) rows)))"

text \<open>\<open>logits[:,0]\<close>: the first label of every row.\<close>

definition first_column :: "real list list \<Rightarrow> error + real list" where
  "first_column logits =
     (if list_ex (\<lambda>r. r = []) logits then Inl IndexError else Inr (map hd logits))"

fun rows_of :: "nat \<Rightarrow> nat \<Rightarrow> real list \<Rightarrow> real list list" where
  "rows_of 0 c xs = []"
| "rows_of (Suc b) c xs = take c xs # rows_of b c (drop c xs)"

text \<open>\<open>x.view(-1, c)\<close>: the row count is inferred; the size must be a multiple of \<open>c\<close>.\<close>

definition view_rows :: "nat \<Rightarrow> real list \<Rightarrow> error + real list list" where
  "view_rows c xs =
     (if c = 0 \<or> length xs mod c \<noteq> 0 then Inl RuntimeError
      else Inr (rows_of (length xs div c) c xs))"

text \<open>\<open>x.view(b, c)\<close>: the element count must be \<open>b * c\<close>.\<close>

definition view2 :: "nat \<Rightarrow> nat \<Rightarrow> real list \<Rightarrow> error + real list list" where
  "view2 b c xs = (if length xs = b * c then Inr (rows_of b c xs) else Inl RuntimeError)"

text \<open>
  \<open>cross_encoder_scores = logits[:,0].view(-1, self.n_negatives + 1)\<close>
\<close>

definition cross_scores :: "nat \<Rightarrow> real list list \<Rightarrow> error + real list list" where
  "cross_scores n logits =
     (case first_column logits of Inl e \<Rightarrow> Inl e | Inr col \<Rightarrow> view_rows (n + 1) col)"

subsection \<open>Dual-encoder scores\<close>

definition dot :: "real list \<Rightarrow> real list \<Rightarrow> real" where
  "dot u v = sum_list (map2 (*) u v)"

text \<open>\<open>docs.size(1)\<close> and \<open>queries.size(2)\<close>, read off the first element.\<close>

definition doc_count :: "real list list list \<Rightarrow> nat" where
  "doc_count docs = (case docs of [] \<Rightarrow> 0 | ds # _ \<Rightarrow> length ds)"

definition rep_dim :: "real list list \<Rightarrow> nat" where
  "rep_dim queries = (case queries of [] \<Rightarrow> 0 | q # _ \<Rightarrow> length q)"

text \<open>
  What \<open>torch.bmm(queries, torch.permute(docs, [0,2,1]))\<close> needs: as many queries as
  document groups, and one representation dimension throughout. (That every group
  has the same number of candidates is what makes \<open>docs\<close> a tensor.)
\<close>

definition shapes_ok :: "real list list \<Rightarrow> real list list list \<Rightarrow> bool" where
  "shapes_ok queries docs =
     (length queries = length docs
      \<and> list_all (\<lambda>q. length q = rep_dim queries) queries
      \<and> list_all (\<lambda>ds. length ds = doc_count docs
                        \<and> list_all (\<lambda>v. length v = rep_dim queries) ds) docs)"

text \<open>
  \<open>scores = torch.bmm(queries, torch.permute(docs, [0,2,1])).squeeze(1)\<close>:
  row \<open>i\<close> holds the dot products of query \<open>i\<close> with its own candidates.
\<close>

definition pair_scores :: "real list list \<Rightarrow> real list list list \<Rightarrow> real list list" where
  "pair_scores queries docs = map2 (\<lambda>q ds. map (dot q) ds) queries docs"

text \<open>
  \<open>docs[:,1:,:].reshape(-1, docs.size(2))\<close>: the negatives of all queries, in batch
  order. The transposition \<open>.T\<close> is absorbed in \<open>in_batch_scores\<close>. The
  representation dimension is taken to be positive, as a vocabulary or embedding size
  is; nested lists do not record the dimension of an empty tensor.
\<close>

definition negatives :: "real list list list \<Rightarrow> real list list" where
  "negatives docs = concat (map (drop 1) docs)"

text \<open>\<open>scores_negative = torch.matmul(queries.squeeze(1), negatives)\<close>\<close>

definition in_batch_scores :: "real list list \<Rightarrow> real list list list \<Rightarrow> real list list" where
  "in_batch_scores queries docs = map (\<lambda>q. map (dot q) (negatives docs)) queries"

text \<open>
  \<open>all_scores = torch.cat([scores[:,:1], scores_negative], dim=1)\<close>
\<close>

definition all_scores :: "real list list \<Rightarrow> real list list list \<Rightarrow> real list list" where
  "all_scores queries docs =
     map2 (\<lambda>s neg. take 1 s @ neg) (pair_scores queries docs) (in_batch_scores queries docs)"

subsection \<open>Distillation terms\<close>

text \<open>
  \<open>scores[:,:1] - scores[:,1:]\<close>: per row, the positive score minus every negative
  score.
\<close>

definition margins :: "real list list \<Rightarrow> real list list" where
  "margins scores = map (\<lambda>r. case r of [] \<Rightarrow> [] | p # negs \<Rightarrow> map (\<lambda>n. p - n) negs) scores"

text \<open>
  \<open>self.mse_loss(margin_student, margin_teacher).mean(dim=1).mean(dim=0)\<close> with
  \<open>MSELoss(reduction="none")\<close>.
\<close>

definition margin_mse :: "real list list \<Rightarrow> real list list \<Rightarrow> fnum" where
  "margin_mse student teacher =
     fmean (map2 (\<lambda>s t. mean (map2 (\<lambda>a b. (a - b)\<^sup>2) s t)) (margins student) (margins teacher))"

text \<open>
  \<open>self.distil_loss(log_softmax(scores), softmax(teacher)).sum(dim=1).mean(dim=0)\<close>
  with \<open>KLDivLoss(reduction="none")\<close>, whose pointwise value is
  \<open>target * (log target - input)\<close>.
\<close>

definition kl_div :: "real list list \<Rightarrow> real list list \<Rightarrow> fnum" where
  "kl_div student teacher =
     mean (map2 (\<lambda>s t. sum_list (map2 (\<lambda>i y. y * (ln y - i)) (log_softmax s) (softmax t)))
             student teacher)"

text \<open>The branch \<open>if self.mse_margin: ... else: ...\<close> of both distillation trainers.\<close>

definition distil_term :: "bool \<Rightarrow> real list list \<Rightarrow> real list list \<Rightarrow> fnum" where
  "distil_term mse scores teacher =
     (if mse then margin_mse scores teacher else kl_div scores teacher)"

subsection \<open>Regularisation of the sparse dual encoders\<close>

text \<open>
  \<open>flops = self.lambda_d * self._flops(docs.reshape(-1, docs.size(2)))\<close>, and
  \<open>if not self.splade_doc: flops = flops + self.lambda_q * self._L1(queries.squeeze(1))\<close>
\<close>

definition reg_term :: "real \<Rightarrow> real \<Rightarrow> bool \<Rightarrow> real list list \<Rightarrow> real list list list \<Rightarrow> fnum" where
  "reg_term ld lq sd queries docs =
     (let flops0 = fscale ld (flops (concat docs))
      in if \<not> sd then fadd flops0 (fscale lq (L1 queries)) else flops0)"

text \<open>\<open>anti_zero = 1/(torch.sum(queries)**2) + 1/(torch.sum(docs)**2)\<close>\<close>

definition anti_zero_term :: "real list list \<Rightarrow> real list list list \<Rightarrow> fnum" where
  "anti_zero_term queries docs =
     fadd (inv_sq (sum_list (concat queries))) (inv_sq (sum_list (concat (concat docs))))"

subsection \<open>RerankerTrainer and RerankerTrainer2\<close>

text \<open>
  \<open>RerankerTrainer.compute_loss\<close>: the batch goes to the model unchanged. Only the
  loss is modelled; \<open>return_outputs\<close> merely pairs it with the model output.
\<close>

definition RerankerTrainer_compute_loss :: "cross_model \<Rightarrow> nat \<Rightarrow> batch \<Rightarrow> error + fnum" where
  "RerankerTrainer_compute_loss model n inputs =
     (case model inputs of
        Inl e \<Rightarrow> Inl e
      | Inr logits \<Rightarrow>
          (case cross_scores n logits of Inl e \<Rightarrow> Inl e | Inr scores \<Rightarrow> ce_loss scores))"

text \<open>
  \<open>RerankerTrainer2\<close> keeps the losses of the last step only; the attributes do not
  exist before the first call of \<open>compute_loss\<close>.
\<close>

record reranker2 =
  rr_n_negatives :: nat
  rr_mse_margin :: bool
  rr_last_celoss :: "fnum option"
  rr_last_distilloss :: "fnum option"

text \<open>
  The result of a call is the returned loss or the exception, the trainer afterwards,
  and the caller's batch dict afterwards (\<open>del inputs["scores"]\<close> mutates it).
\<close>

definition RerankerTrainer2_compute_loss ::
  "cross_model \<Rightarrow> reranker2 \<Rightarrow> batch \<Rightarrow> (error + fnum) \<times> reranker2 \<times> batch" where
  "RerankerTrainer2_compute_loss model self inputs =
     (case inputs ''scores'' of
        None \<Rightarrow> (Inl KeyError, self, inputs)
      | Some teacher_scores \<Rightarrow>
          let inputs1 = inputs(''scores'' := None) in
          (case model inputs1 of
             Inl e \<Rightarrow> (Inl e, self, inputs1)
           | Inr logits \<Rightarrow>
               (case cross_scores (rr_n_negatives self) logits of
                  Inl e \<Rightarrow> (Inl e, self, inputs1)
                | Inr scores \<Rightarrow>
                    (case ce_loss scores of
                       Inl e \<Rightarrow> (Inl e, self, inputs1)
                     | Inr loss \<Rightarrow>
                         (case view2 (length scores) (rr_n_negatives self + 1) teacher_scores of
                            Inl e \<Rightarrow> (Inl e, self, inputs1)
                          | Inr teacher \<Rightarrow>
                              let distil_loss = distil_term (rr_mse_margin self) scores teacher
                              in (Inr (fadd (fscale (1/10) loss) (fscale (9/10) distil_loss)),
                                  self\<lparr>rr_last_celoss := Some loss,
                                       rr_last_distilloss := Some distil_loss\<rparr>,
                                  inputs1))))))"

subsection \<open>FirstStageTrainer and DistilTrainer\<close>

text \<open>
  The fields \<open>compute_loss\<close> and \<open>log\<close> read or write. \<open>DistilTrainer\<close> has the
  fields of \<open>FirstStageTrainer\<close> and two more.
\<close>

record first_stage_trainer =
  n_negatives :: nat
  splade_doc :: bool
  dense :: bool
  lambda_d :: real
  lambda_q :: real
  step :: nat
  last_celoss :: "fnum list"
  last_flops :: "fnum list"
  last_anti_zero :: "fnum list"
  last_docs :: "fnum list"
  last_queries :: "fnum list"

record distil_trainer = first_stage_trainer +
  mse_margin :: bool
  last_distilloss :: "fnum list"

text \<open>
  The block \<open>if not self.dense: ...\<close> shared by both trainers: it adds the
  regularisation and the anti-zero term to the loss and appends the four statistics.
\<close>

definition sparse_block ::
  "fnum \<Rightarrow> real list list \<Rightarrow> real list list list \<Rightarrow> 'a first_stage_trainer_scheme
     \<Rightarrow> fnum \<times> 'a first_stage_trainer_scheme" where
  "sparse_block loss queries docs self =
     (if \<not> dense self then
        let flops1 = reg_term (lambda_d self) (lambda_q self) (splade_doc self) queries docs;
            anti_zero = anti_zero_term queries docs
        in (fadd (fadd loss flops1) anti_zero,
            self\<lparr>last_docs := last_docs self @ [L0 (concat docs)],
                 last_queries := last_queries self @ [L0 queries],
                 last_flops := last_flops self @ [flops1],
                 last_anti_zero := last_anti_zero self @ [anti_zero]\<rparr>)
      else (loss, self))"

text \<open>
  \<open>FirstStageTrainer.compute_loss\<close>. It starts with
  \<open>try: del inputs["scores"] except: pass\<close>.
\<close>

definition FirstStageTrainer_compute_loss ::
  "dual_model \<Rightarrow> first_stage_trainer \<Rightarrow> batch
     \<Rightarrow> (error + fnum) \<times> first_stage_trainer \<times> batch" where
  "FirstStageTrainer_compute_loss model self inputs =
     (let inputs1 = inputs(''scores'' := None);
          self1 = self\<lparr>step := step self + 1\<rparr>
      in case model inputs1 of
           Inl e \<Rightarrow> (Inl e, self1, inputs1)
         | Inr (queries, docs) \<Rightarrow>
             if \<not> shapes_ok queries docs then (Inl RuntimeError, self1, inputs1)
             else
               (case ce_loss (all_scores queries docs) of
                  Inl e \<Rightarrow> (Inl e, self1, inputs1)
                | Inr loss \<Rightarrow>
                    let self2 = self1\<lparr>last_celoss := last_celoss self1 @ [loss]\<rparr>;
                        (loss', self3) = sparse_block loss queries docs self2
                    in (Inr loss', self3, inputs1)))"

text \<open>
  \<open>DistilTrainer.compute_loss\<close>. It starts with
  \<open>teacher_scores = inputs["scores"]; del inputs["scores"]\<close>.
\<close>

definition DistilTrainer_compute_loss ::
  "dual_model \<Rightarrow> distil_trainer \<Rightarrow> batch \<Rightarrow> (error + fnum) \<times> distil_trainer \<times> batch" where
  "DistilTrainer_compute_loss model self inputs =
     (case inputs ''scores'' of
        None \<Rightarrow> (Inl KeyError, self, inputs)
      | Some teacher_scores \<Rightarrow>
          let inputs1 = inputs(''scores'' := None);
              self1 = self\<lparr>step := step self + 1\<rparr>
          in (case model inputs1 of
                Inl e \<Rightarrow> (Inl e, self1, inputs1)
              | Inr (queries, docs) \<Rightarrow>
                  if \<not> shapes_ok queries docs then (Inl RuntimeError, self1, inputs1)
                  else
                    let scores = pair_scores queries docs in
                    (case view2 (length scores) (doc_count docs) teacher_scores of
                       Inl e \<Rightarrow> (Inl e, self1, inputs1)
                     | Inr teacher \<Rightarrow>
                         let distil_loss = distil_term (mse_margin self) scores teacher in
                         (case ce_loss (all_scores queries docs) of
                            Inl e \<Rightarrow> (Inl e, self1, inputs1)
                          | Inr ce \<Rightarrow>
                              let loss = fadd (fscale (1/100) ce) (fscale (99/100) distil_loss);
                                  self2 = self1\<lparr>last_celoss := last_celoss self1 @ [ce],
                                               last_distilloss :=
                                                 last_distilloss self1 @ [distil_loss]\<rparr>;
                                  (loss', self3) = sparse_block loss queries docs self2
                              in (Inr loss', self3, inputs1)))))"

subsection \<open>The log hooks\<close>

text \<open>
  The part of the engine's \<open>TrainerState\<close> the hooks use, and the log record, a dict
  from metric names to numbers. The call of the engine's callback handler at the end
  of each hook is outside the model.
\<close>

datatype logval = FloatV fnum | IntV nat

type_synonym logs = "string \<rightharpoonup> logval"

record trainer_state =
  epoch :: "real option"
  global_step :: nat
  log_history :: "logs list"

text \<open>Python's \<open>round(x, 2)\<close>: the nearest multiple of 1/100, ties to the even one.\<close>

definition round_half_even :: "real \<Rightarrow> int" where
  "round_half_even x =
     (let f = \<lfloor>x\<rfloor>; d = x - of_int f
      in if d < 1/2 then f else if 1/2 < d then f + 1 else if even f then f else f + 1)"

definition round2 :: "real \<Rightarrow> real" where
  "round2 x = of_int (round_half_even (x * 100)) / 100"

text \<open>\<open>if self.state.epoch is not None: logs["epoch"] = round(self.state.epoch, 2)\<close>\<close>

definition log_epoch :: "trainer_state \<Rightarrow> logs \<Rightarrow> logs" where
  "log_epoch state logs =
     (case epoch state of None \<Rightarrow> logs | Some e \<Rightarrow> logs(''epoch'' \<mapsto> FloatV (Fin (round2 e))))"

text \<open>
  \<open>output = {**logs, **{"step": self.state.global_step}}\<close> and
  \<open>self.state.log_history.append(output)\<close>
\<close>

definition append_history :: "trainer_state \<Rightarrow> logs \<Rightarrow> trainer_state" where
  "append_history state logs =
     state\<lparr>log_history := log_history state @ [logs(''step'' \<mapsto> IntV (global_step state))]\<rparr>"

text \<open>The block \<open>if not self.dense: ...\<close> of both dual-encoder log hooks.\<close>

definition log_sparse :: "'a first_stage_trainer_scheme \<Rightarrow> logs \<Rightarrow> logs" where
  "log_sparse self logs =
     (if \<not> dense self then
        logs(''L0_d'' \<mapsto> FloatV (fmean (last_docs self)),
             ''L0_q'' \<mapsto> FloatV (fmean (last_queries self)),
             ''flops_loss'' \<mapsto> FloatV (fmean (last_flops self)),
             ''anti-zero'' \<mapsto> FloatV (fmean (last_anti_zero self)))
      else logs)"

text \<open>
  \<open>FirstStageTrainer.log\<close>: the trainer, the engine state and the caller's \<open>logs\<close>
  dict after the call.
\<close>

definition FirstStageTrainer_log ::
  "first_stage_trainer \<Rightarrow> trainer_state \<Rightarrow> logs
     \<Rightarrow> first_stage_trainer \<times> trainer_state \<times> logs" where
  "FirstStageTrainer_log self state logs =
     (let logs1 = log_epoch state logs;
          logs2 = log_sparse self logs1;
          logs3 = logs2(''ce_loss'' \<mapsto> FloatV (fmean (last_celoss self)));
          self1 = self\<lparr>last_docs := [], last_queries := [], last_flops := [],
                       last_anti_zero := [], last_celoss := []\<rparr>
      in (self1, append_history state logs3, logs3))"

text \<open>\<open>DistilTrainer.log\<close>\<close>

definition DistilTrainer_log ::
  "distil_trainer \<Rightarrow> trainer_state \<Rightarrow> logs \<Rightarrow> distil_trainer \<times> trainer_state \<times> logs" where
  "DistilTrainer_log self state logs =
     (let logs1 = log_epoch state logs;
          logs2 = log_sparse self logs1;
          logs3 = logs2(''ce_loss'' \<mapsto> FloatV (fmean (last_celoss self)),
                        ''distil_loss'' \<mapsto> FloatV (fmean (last_distilloss self)));
          self1 = self\<lparr>last_docs := [], last_queries := [], last_flops := [],
                       last_anti_zero := [], last_celoss := [], last_distilloss := []\<rparr>
      in (self1, append_history state logs3, logs3))"

text \<open>
  \<open>RerankerTrainer2.log\<close> reads \<open>self.last_celoss.item()\<close> and
  \<open>self.last_distilloss.item()\<close>, which do not exist before the first step; the
  trainer is not changed. By then \<open>logs["epoch"]\<close> has been written.
\<close>

definition RerankerTrainer2_log ::
  "reranker2 \<Rightarrow> trainer_state \<Rightarrow> logs \<Rightarrow> error option \<times> trainer_state \<times> logs" where
  "RerankerTrainer2_log self state logs =
     (let logs1 = log_epoch state logs in
      case rr_last_celoss self of
        None \<Rightarrow> (Some AttributeError, state, logs1)
      | Some ce \<Rightarrow>
          let logs2 = logs1(''ce_loss'' \<mapsto> FloatV ce) in
          (case rr_last_distilloss self of
             None \<Rightarrow> (Some AttributeError, state, logs2)
           | Some dl \<Rightarrow>
               let logs3 = logs2(''distil_loss'' \<mapsto> FloatV dl)
               in (None, append_history state logs3, logs3)))"

subsection \<open>Checkpoint restore\<close>








subsection \<open>The contrastive rows in closed form\<close>

text \<open>
  The score row of query \<open>i\<close> written out: its dot product with its own positive
  (candidate 0 of group \<open>i\<close>), then its dot products with the candidates
  \<open>1, 2, \<dots>\<close> of every group \<open>j\<close> of the batch.
\<close>

definition in_batch_row :: "real list list \<Rightarrow> real list list list \<Rightarrow> nat \<Rightarrow> real list" where
  "in_batch_row queries docs i =
     dot (queries ! i) (docs ! i ! 0)
     # concat (map (\<lambda>j. map (\<lambda>k. dot (queries ! i) (docs ! j ! k)) [1..<doc_count docs])
                   [0..<length docs])"

text \<open>Softmax cross-entropy of one row against class 0.\<close>

definition ce0 :: "real list \<Rightarrow> real" where
  "ce0 row = ln (sum_list (map exp row)) - row ! 0"

text \<open>Two batches have the same shape and the same zero pattern.\<close>

definition same_support :: "real list list \<Rightarrow> real list list \<Rightarrow> bool" where
  "same_support xs ys = list_all2 (list_all2 (\<lambda>x y. (x = 0) = (y = 0))) xs ys"




section \<open>Properties\<close>

subsection \<open>The L0 metric\<close>

lemma count_nonzero_filter: "count_nonzero r = length (filter (\<lambda>x. x \<noteq> 0) r)"
  by (induction r) auto

lemma count_nonzero_card: "count_nonzero r = card {i. i < length r \<and> r ! i \<noteq> 0}"
  by (simp add: count_nonzero_filter length_filter_conv_card)

lemma count_nonzero_support:
  "list_all2 (\<lambda>x y. (x = 0) = (y = 0)) r r' \<Longrightarrow> count_nonzero r' = count_nonzero r"
  by (induction r r' rule: list_all2_induct) auto

lemma L0_rows_support:
  "list_all2 (list_all2 (\<lambda>x y. (x = 0) = (y = 0))) xs ys \<Longrightarrow>
   map (\<lambda>r. real (count_nonzero r)) ys = map (\<lambda>r. real (count_nonzero r)) xs"
  by (induction xs ys rule: list_all2_induct) (auto simp: count_nonzero_support)

text \<open>
  C9. The L0 metric is the mean over the batch of the exact number of positions of
  each representation vector that hold a nonzero value, and it depends on the zero
  pattern only: a batch of the same shape whose entries are zero at exactly the same
  positions has the same L0, whatever the nonzero values are.
\<close>

theorem L0_counts_nonzero_entries:
  "L0 batch_rep = mean (map (\<lambda>r. real (card {i. i < length r \<and> r ! i \<noteq> 0})) batch_rep)
   \<and> (same_support batch_rep batch_rep' \<longrightarrow> L0 batch_rep' = L0 batch_rep)"
proof (intro conjI impI)
  show "L0 batch_rep = mean (map (\<lambda>r. real (card {i. i < length r \<and> r ! i \<noteq> 0})) batch_rep)"
    by (simp add: L0_def count_nonzero_card)
next
  assume "same_support batch_rep batch_rep'"
  then have "map (\<lambda>r. real (count_nonzero r)) batch_rep'
      = map (\<lambda>r. real (count_nonzero r)) batch_rep"
    unfolding same_support_def by (rule L0_rows_support)
  then show "L0 batch_rep' = L0 batch_rep"
    by (simp only: L0_def)
qed

theorem L0_counts_nonzero_entries_witness:
  "same_support [[0, 2, 5], [1, 0, 0]] [[0, -7, 1/3], [100, 0, 0]]
   \<and> L0 [[0, -7, 1/3], [100, 0, 0]] = L0 [[0, 2, 5], [1, 0, 0]]
   \<and> L0 [[0, 2, 5], [1, 0, 0]] = Fin (3/2)"
proof -
  have s: "same_support [[0, 2, 5], [1, 0, 0]] [[0, -7, 1/3], [100, 0, 0]]"
    by (simp add: same_support_def)
  have e: "L0 [[0, -7, 1/3], [100, 0, 0]] = L0 [[0, 2, 5], [1, 0, 0]]"
    by (rule L0_counts_nonzero_entries [THEN conjunct2, THEN mp, OF s])
  have v: "L0 [[0, 2, 5], [1, 0, 0]] = Fin (3/2)"
    by (simp add: L0_def mean_def)
  from s e v show ?thesis by blast
qed

subsection \<open>The FLOPS surrogate\<close>











subsection \<open>The rows of the contrastive loss\<close>

lemma drop_as_nth: "drop n xs = map (\<lambda>k. xs ! k) [n..<length xs]"
  by (rule nth_equalityI) simp_all

lemma shapes_ok_rows:
  assumes "shapes_ok queries docs" "j < length docs"
  shows "length (docs ! j) = doc_count docs"
  using assms by (simp add: shapes_ok_def list_all_length)

lemma negatives_nth:
  assumes "shapes_ok queries docs"
  shows "negatives docs
       = concat (map (\<lambda>j. map (\<lambda>k. docs ! j ! k) [1..<doc_count docs]) [0..<length docs])"
proof -
  have "map (drop 1) docs = map (\<lambda>j. drop 1 (docs ! j)) [0..<length docs]"
    by (rule nth_equalityI) simp_all
  also have "\<dots> = map (\<lambda>j. map (\<lambda>k. docs ! j ! k) [1..<doc_count docs]) [0..<length docs]"
    using assms by (simp add: drop_as_nth shapes_ok_rows)
  finally show ?thesis by (simp add: negatives_def)
qed

lemma length_concat_const:
  "(\<And>x. x \<in> set xs \<Longrightarrow> length x = n) \<Longrightarrow> length (concat xs) = length xs * n"
  by (induction xs) simp_all

lemma all_scores_rows:
  assumes ok: "shapes_ok queries docs" and c: "1 \<le> doc_count docs"
  shows "all_scores queries docs = map (in_batch_row queries docs) [0..<length queries]"
proof (rule nth_equalityI)
  have len: "length queries = length docs" using ok by (simp add: shapes_ok_def)
  show "length (all_scores queries docs) = length (map (in_batch_row queries docs) [0..<length queries])"
    by (simp add: all_scores_def pair_scores_def in_batch_scores_def len)
  fix i assume "i < length (all_scores queries docs)"
  then have i: "i < length queries" "i < length docs"
    by (simp_all add: all_scores_def pair_scores_def in_batch_scores_def len)
  have "length (docs ! i) = doc_count docs" using ok i(2) by (rule shapes_ok_rows)
  then have ne: "docs ! i \<noteq> []" using c by auto
  then have t: "take 1 (map (dot (queries ! i)) (docs ! i)) = [dot (queries ! i) (docs ! i ! 0)]"
    by (cases "docs ! i") simp_all
  have n: "map (dot (queries ! i)) (negatives docs)
      = concat (map (\<lambda>j. map (\<lambda>k. dot (queries ! i) (docs ! j ! k)) [1..<doc_count docs])
                   [0..<length docs])"
    by (simp add: negatives_nth[OF ok] map_concat comp_def)
  show "all_scores queries docs ! i = map (in_batch_row queries docs) [0..<length queries] ! i"
    using i t n by (simp add: all_scores_def pair_scores_def in_batch_scores_def in_batch_row_def)
qed

lemma length_in_batch_row:
  "length (in_batch_row queries docs i) = 1 + length docs * (doc_count docs - 1)"
proof -
  have "\<And>x. x \<in> set (map (\<lambda>j. map (\<lambda>k. dot (queries ! i) (docs ! j ! k)) [1..<doc_count docs])
                   [0..<length docs]) \<Longrightarrow> length x = doc_count docs - 1"
    by auto
  then have "length (concat (map (\<lambda>j. map (\<lambda>k. dot (queries ! i) (docs ! j ! k)) [1..<doc_count docs])
                   [0..<length docs])) = length (map (\<lambda>j. map (\<lambda>k. dot (queries ! i) (docs ! j ! k)) [1..<doc_count docs])
                   [0..<length docs]) * (doc_count docs - 1)"
    by (rule length_concat_const)
  then show ?thesis by (simp add: in_batch_row_def)
qed

lemma log_softmax_0: "r \<noteq> [] \<Longrightarrow> - (log_softmax r ! 0) = ce0 r"
  by (cases r) (simp_all add: log_softmax_def ce0_def)

lemma ce_loss_rows:
  assumes "\<And>r. r \<in> set rows \<Longrightarrow> r \<noteq> []"
  shows "ce_loss rows = Inr (mean (map ce0 rows))"
proof -
  have a: "\<not> list_ex (\<lambda>r. r = []) rows" using assms by (auto simp: list_ex_iff)
  have b: "map (\<lambda>r. - (log_softmax r ! 0)) rows = map ce0 rows"
    using assms by (simp add: log_softmax_0)
  show ?thesis unfolding ce_loss_def b using a by simp
qed

lemma contrastive_value:
  assumes ok: "shapes_ok queries docs" and c: "1 \<le> doc_count docs"
  shows "ce_loss (all_scores queries docs)
       = Inr (mean (map (\<lambda>i. ce0 (in_batch_row queries docs i)) [0..<length queries]))"
proof -
  have "ce_loss (map (in_batch_row queries docs) [0..<length queries])
      = Inr (mean (map ce0 (map (in_batch_row queries docs) [0..<length queries])))"
    by (rule ce_loss_rows) (auto simp: in_batch_row_def)
  then show ?thesis
    by (simp add: all_scores_rows[OF ok c] comp_def)
qed

lemma sparse_block_celoss: "last_celoss (snd (sparse_block loss queries docs self)) = last_celoss self"
  by (simp add: sparse_block_def Let_def)

lemma fs_celoss:
  assumes "model (inputs(''scores'' := None)) = Inr (queries, docs)"
    and "shapes_ok queries docs" and "ce_loss (all_scores queries docs) = Inr ce"
  shows "last_celoss (fst (snd (FirstStageTrainer_compute_loss model self inputs)))
       = last_celoss self @ [ce]"
  using assms
  by (simp add: FirstStageTrainer_compute_loss_def Let_def split_beta sparse_block_celoss)

lemma distil_celoss:
  assumes "inputs ''scores'' = Some ts" "length ts = length queries * doc_count docs"
    and "model (inputs(''scores'' := None)) = Inr (queries, docs)"
    and "shapes_ok queries docs" and "ce_loss (all_scores queries docs) = Inr ce"
  shows "last_celoss (fst (snd (DistilTrainer_compute_loss model self inputs)))
       = last_celoss self @ [ce]"
proof -
  have "length (pair_scores queries docs) = length queries"
    using assms(4) by (simp add: pair_scores_def shapes_ok_def)
  then show ?thesis
  using assms
  by (simp add: DistilTrainer_compute_loss_def Let_def split_beta sparse_block_celoss view2_def)
qed


lemma example_shapes_ok: "shapes_ok [[1, 0], [0, 1]] [[[1, 0], [0, 1]], [[0, 1], [1, 1]]]"
  by (simp add: shapes_ok_def rep_dim_def doc_count_def)



subsection \<open>The successful path of the dual-encoder trainers; no negatives\<close>

lemma fs_success:
  assumes "model (inputs(''scores'' := None)) = Inr (queries, docs)"
    and "shapes_ok queries docs" and "ce_loss (all_scores queries docs) = Inr ce"
  shows "FirstStageTrainer_compute_loss model self inputs
       = (Inr (fst (sparse_block ce queries docs
                     (self\<lparr>step := step self + 1, last_celoss := last_celoss self @ [ce]\<rparr>))),
          snd (sparse_block ce queries docs
                     (self\<lparr>step := step self + 1, last_celoss := last_celoss self @ [ce]\<rparr>)),
          inputs(''scores'' := None))"
  using assms by (simp add: FirstStageTrainer_compute_loss_def Let_def split_beta)

lemma distil_success:
  assumes "inputs ''scores'' = Some ts" and "length ts = length queries * doc_count docs"
    and "model (inputs(''scores'' := None)) = Inr (queries, docs)"
    and "shapes_ok queries docs" and "ce_loss (all_scores queries docs) = Inr ce"
  shows "DistilTrainer_compute_loss model self inputs
       = (let dl = distil_term (mse_margin self) (pair_scores queries docs)
                     (rows_of (length queries) (doc_count docs) ts);
              self2 = self\<lparr>step := step self + 1, last_celoss := last_celoss self @ [ce],
                           last_distilloss := last_distilloss self @ [dl]\<rparr>;
              r = sparse_block (fadd (fscale (1/100) ce) (fscale (99/100) dl)) queries docs self2
          in (Inr (fst r), snd r, inputs(''scores'' := None)))"
proof -
  have "length (pair_scores queries docs) = length queries"
    using assms(4) by (simp add: pair_scores_def shapes_ok_def)
  then show ?thesis
    using assms
    by (simp add: DistilTrainer_compute_loss_def Let_def split_beta view2_def)
qed

lemma rows_of_singletons: "rows_of (length xs) 1 xs = map (\<lambda>x. [x]) xs"
  by (induction xs) (simp_all add: take_Suc_conv_app_nth)

lemma ce_loss_singletons:
  assumes "rows \<noteq> []" and "\<And>r. r \<in> set rows \<Longrightarrow> length r = 1"
  shows "ce_loss rows = Inr (Fin 0)"
proof -
  have ne: "\<And>r. r \<in> set rows \<Longrightarrow> r \<noteq> []"
    using assms(2) by fastforce
  have z: "\<And>r. r \<in> set rows \<Longrightarrow> ce0 r = 0"
  proof -
    fix r assume "r \<in> set rows"
    then have "length r = 1" by (rule assms(2))
    then obtain x where "r = [x]" by (cases r) auto
    then show "ce0 r = 0" by (simp add: ce0_def)
  qed
  have "map ce0 rows = map (\<lambda>r. 0) rows"
    by (rule map_cong[OF refl]) (rule z)
  also have "sum_list (map (\<lambda>r. 0::real) rows) = 0" by simp
  finally have "sum_list (map ce0 rows) = 0" .
  then have "mean (map ce0 rows) = Fin 0"
    using assms(1) by (simp add: mean_def)
  then show ?thesis
    using ce_loss_rows[of rows] ne by simp
qed

lemma cross_scores_zero_negatives:
  assumes "\<not> list_ex (\<lambda>r. r = []) logits"
  shows "cross_scores 0 logits = Inr (map (\<lambda>r. [hd r]) logits)"
  using assms by (simp add: cross_scores_def first_column_def view_rows_def
      rows_of_singletons[of "map hd logits", simplified] comp_def)

lemma cross_ce_zero_negatives:
  assumes "\<not> list_ex (\<lambda>r. r = []) logits" "logits \<noteq> []"
  shows "ce_loss (map (\<lambda>r. [hd r]) logits) = Inr (Fin 0)"
  using assms by (intro ce_loss_singletons) auto

lemma dual_ce_zero_negatives:
  assumes ok: "shapes_ok queries docs" and ne: "queries \<noteq> []" and c: "doc_count docs = 1"
  shows "ce_loss (all_scores queries docs) = Inr (Fin 0)"
proof (rule ce_loss_singletons)
  have c1: "1 \<le> doc_count docs" using c by simp
  note rows = all_scores_rows[OF ok c1]
  show "all_scores queries docs \<noteq> []" using ne by (simp add: rows)
  fix r assume "r \<in> set (all_scores queries docs)"
  then obtain i where "r = in_batch_row queries docs i" by (auto simp: rows)
  then show "length r = 1" by (simp add: length_in_batch_row c)
qed

lemma rr2_success:
  assumes "inputs ''scores'' = Some ts"
    and "model (inputs(''scores'' := None)) = Inr logits"
    and "cross_scores (rr_n_negatives self) logits = Inr scores"
    and "ce_loss scores = Inr ce"
    and "length ts = length scores * (rr_n_negatives self + 1)"
  shows "RerankerTrainer2_compute_loss model self inputs
       = (let dl = distil_term (rr_mse_margin self) scores
                     (rows_of (length scores) (rr_n_negatives self + 1) ts)
          in (Inr (fadd (fscale (1/10) ce) (fscale (9/10) dl)),
              self\<lparr>rr_last_celoss := Some ce, rr_last_distilloss := Some dl\<rparr>,
              inputs(''scores'' := None)))"
  using assms by (simp add: RerankerTrainer2_compute_loss_def Let_def view2_def)

text \<open>
  C5. With no negatives, that is exactly one candidate per query, the contrastive
  cross-entropy of a non-empty batch is zero: for the cross-encoder trainers, whose
  scores are then one column, and for the dual-encoder trainers when every document
  group holds the positive only. This is the value the trainers return or record as
  their cross-entropy term.
\<close>

theorem contrastive_zero_without_negatives:
  "(cmodel inputs = Inr logits \<and> logits \<noteq> [] \<and> \<not> list_ex (\<lambda>r. r = []) logits \<longrightarrow>
      RerankerTrainer_compute_loss cmodel 0 inputs = Inr (Fin 0))
   \<and> (inputs ''scores'' = Some ts \<and> length ts = length logits \<and> rr_n_negatives rself = 0
       \<and> cmodel (inputs(''scores'' := None)) = Inr logits
       \<and> logits \<noteq> [] \<and> \<not> list_ex (\<lambda>r. r = []) logits \<longrightarrow>
      rr_last_celoss (fst (snd (RerankerTrainer2_compute_loss cmodel rself inputs)))
        = Some (Fin 0))
   \<and> (shapes_ok queries docs \<and> queries \<noteq> [] \<and> doc_count docs = 1 \<longrightarrow>
      ce_loss (all_scores queries docs) = Inr (Fin 0)
      \<and> (fmodel (inputs(''scores'' := None)) = Inr (queries, docs) \<longrightarrow>
           last_celoss (fst (snd (FirstStageTrainer_compute_loss fmodel fself inputs)))
             = last_celoss fself @ [Fin 0])
      \<and> (inputs ''scores'' = Some ts \<and> length ts = length queries
           \<and> dmodel (inputs(''scores'' := None)) = Inr (queries, docs) \<longrightarrow>
           last_celoss (fst (snd (DistilTrainer_compute_loss dmodel dself inputs)))
             = last_celoss dself @ [Fin 0]))"
proof (intro conjI impI)
  assume a: "cmodel inputs = Inr logits \<and> logits \<noteq> [] \<and> \<not> list_ex (\<lambda>r. r = []) logits"
  then show "RerankerTrainer_compute_loss cmodel 0 inputs = Inr (Fin 0)"
    by (simp add: RerankerTrainer_compute_loss_def cross_scores_zero_negatives
        cross_ce_zero_negatives)
next
  assume a: "inputs ''scores'' = Some ts \<and> length ts = length logits \<and> rr_n_negatives rself = 0
       \<and> cmodel (inputs(''scores'' := None)) = Inr logits
       \<and> logits \<noteq> [] \<and> \<not> list_ex (\<lambda>r. r = []) logits"
  then have s: "cross_scores (rr_n_negatives rself) logits = Inr (map (\<lambda>r. [hd r]) logits)"
    by (simp add: cross_scores_zero_negatives)
  have c: "ce_loss (map (\<lambda>r. [hd r]) logits) = Inr (Fin 0)"
    using a by (simp add: cross_ce_zero_negatives)
  have "length ts = length (map (\<lambda>r. [hd r]) logits) * (rr_n_negatives rself + 1)"
    using a by simp
  with a s c show "rr_last_celoss (fst (snd (RerankerTrainer2_compute_loss cmodel rself inputs)))
        = Some (Fin 0)"
    by (simp add: rr2_success [where scores = "map (\<lambda>r. [hd r]) logits"] Let_def)
next
  assume a: "shapes_ok queries docs \<and> queries \<noteq> [] \<and> doc_count docs = 1"
  then show z: "ce_loss (all_scores queries docs) = Inr (Fin 0)"
    by (simp add: dual_ce_zero_negatives)
  show "last_celoss (fst (snd (FirstStageTrainer_compute_loss fmodel fself inputs)))
             = last_celoss fself @ [Fin 0]"
    if "fmodel (inputs(''scores'' := None)) = Inr (queries, docs)"
    using that a z by (intro fs_celoss) auto
  show "last_celoss (fst (snd (DistilTrainer_compute_loss dmodel dself inputs)))
             = last_celoss dself @ [Fin 0]"
    if "inputs ''scores'' = Some ts \<and> length ts = length queries
           \<and> dmodel (inputs(''scores'' := None)) = Inr (queries, docs)"
    using that a z by (intro distil_celoss) auto
qed

theorem contrastive_zero_without_negatives_witness:
  "RerankerTrainer_compute_loss (\<lambda>b. Inr [[5, 7], [3, 1]]) 0 Map.empty = Inr (Fin 0)
   \<and> rr_last_celoss (fst (snd (RerankerTrainer2_compute_loss (\<lambda>b. Inr [[5, 7], [3, 1]])
        \<lparr>rr_n_negatives = 0, rr_mse_margin = False, rr_last_celoss = None,
         rr_last_distilloss = None\<rparr> [''scores'' \<mapsto> [4, 2]]))) = Some (Fin 0)
   \<and> shapes_ok [[1, 2], [0, 1]] [[[3, 4]], [[5, 6]]]
   \<and> ce_loss (all_scores [[1, 2], [0, 1]] [[[3, 4]], [[5, 6]]]) = Inr (Fin 0)
   \<and> last_celoss (fst (snd (FirstStageTrainer_compute_loss
        (\<lambda>b. Inr ([[1, 2], [0, 1]], [[[3, 4]], [[5, 6]]]))
        \<lparr>n_negatives = 0, splade_doc = False, dense = False, lambda_d = 1, lambda_q = 1,
         step = 0, last_celoss = [], last_flops = [], last_anti_zero = [], last_docs = [],
         last_queries = []\<rparr> Map.empty))) = [Fin 0]
   \<and> last_celoss (fst (snd (DistilTrainer_compute_loss
        (\<lambda>b. Inr ([[1, 2], [0, 1]], [[[3, 4]], [[5, 6]]]))
        \<lparr>n_negatives = 0, splade_doc = False, dense = False, lambda_d = 1, lambda_q = 1,
         step = 0, last_celoss = [], last_flops = [], last_anti_zero = [], last_docs = [],
         last_queries = [], mse_margin = False, last_distilloss = []\<rparr>
        [''scores'' \<mapsto> [4, 2]]))) = [Fin 0]"
proof -
  let ?Q = "[[1, 2], [0, 1]] :: real list list"
  let ?D = "[[[3, 4]], [[5, 6]]] :: real list list list"
  let ?L = "[[5, 7], [3, 1]] :: real list list"
  let ?S = "[''scores'' \<mapsto> [4, 2 :: real]]"
  note t = contrastive_zero_without_negatives
  have r1: "RerankerTrainer_compute_loss (\<lambda>b. Inr ?L) 0 Map.empty = Inr (Fin 0)"
    by (rule t [where logits = ?L, THEN conjunct1, THEN mp]) simp
  have r2: "rr_last_celoss (fst (snd (RerankerTrainer2_compute_loss (\<lambda>b. Inr ?L)
        \<lparr>rr_n_negatives = 0, rr_mse_margin = False, rr_last_celoss = None,
         rr_last_distilloss = None\<rparr> ?S))) = Some (Fin 0)"
    by (rule t [where ts = "[4, 2]" and logits = ?L, THEN conjunct2, THEN conjunct1, THEN mp])
      simp
  have ok: "shapes_ok ?Q ?D"
    by (simp add: shapes_ok_def rep_dim_def doc_count_def)
  then have h: "shapes_ok ?Q ?D \<and> ?Q \<noteq> [] \<and> doc_count ?D = 1"
    by (simp add: doc_count_def)
  note d = t [THEN conjunct2, THEN conjunct2, THEN mp, OF h]
  have d1: "ce_loss (all_scores ?Q ?D) = Inr (Fin 0)"
    by (rule d [THEN conjunct1])
  have d2: "last_celoss (fst (snd (FirstStageTrainer_compute_loss (\<lambda>b. Inr (?Q, ?D))
        \<lparr>n_negatives = 0, splade_doc = False, dense = False, lambda_d = 1, lambda_q = 1,
         step = 0, last_celoss = [], last_flops = [], last_anti_zero = [], last_docs = [],
         last_queries = []\<rparr> Map.empty))) = [Fin 0]"
    using d [THEN conjunct2, THEN conjunct1, THEN mp, of "\<lambda>b. Inr (?Q, ?D)" Map.empty, OF refl]
    by simp
  have d3: "last_celoss (fst (snd (DistilTrainer_compute_loss (\<lambda>b. Inr (?Q, ?D))
        \<lparr>n_negatives = 0, splade_doc = False, dense = False, lambda_d = 1, lambda_q = 1,
         step = 0, last_celoss = [], last_flops = [], last_anti_zero = [], last_docs = [],
         last_queries = [], mse_margin = False, last_distilloss = []\<rparr> ?S))) = [Fin 0]"
    using d [THEN conjunct2, THEN conjunct2, THEN mp, of ?S "[4, 2]" "\<lambda>b. Inr (?Q, ?D)"]
    by simp
  from r1 r2 ok d1 d2 d3 show ?thesis by blast
qed

subsection \<open>The teacher scores in first-stage training\<close>

lemma ce_loss_error: "ce_loss rows = Inl e \<Longrightarrow> e = IndexError"
  by (simp add: ce_loss_def split: if_splits)

lemma fs_no_key_error:
  assumes "\<forall>b. model b \<noteq> Inl KeyError"
  shows "fst (FirstStageTrainer_compute_loss model self inputs) \<noteq> Inl KeyError"
proof (cases "model (inputs(''scores'' := None))")
  case (Inl e)
  then show ?thesis
    using assms by (auto simp: FirstStageTrainer_compute_loss_def)
next
  case (Inr out)
  obtain queries docs where out: "out = (queries, docs)" by (cases out)
  show ?thesis
  proof (cases "ce_loss (all_scores queries docs)")
    case (Inl e)
    then have "e = IndexError" by (rule ce_loss_error)
    with Inl Inr out show ?thesis
      by (simp add: FirstStageTrainer_compute_loss_def Let_def)
  next
    case ce: (Inr ce)
    with Inr out show ?thesis
      by (simp add: FirstStageTrainer_compute_loss_def Let_def split_beta)
  qed
qed

lemma ce_loss_all_scores_defined:
  assumes "shapes_ok queries docs" "1 \<le> doc_count docs"
  shows "\<exists>ce. ce_loss (all_scores queries docs) = Inr ce"
  using contrastive_value[OF assms] by blast

text \<open>
  C8. \<open>FirstStageTrainer.compute_loss\<close> does not need the teacher scores: a batch
  with a \<open>"scores"\<close> entry and the same batch without it give the same outcome (loss or
  exception, trainer fields, batch dict afterwards). Without the entry the call
  returns a loss whenever the model returns representations of consistent shape with
  at least one candidate per query, and it raises \<open>KeyError\<close> only if the model does.
\<close>

theorem first_stage_tolerates_missing_scores:
  "FirstStageTrainer_compute_loss model self (inputs(''scores'' \<mapsto> v))
     = FirstStageTrainer_compute_loss model self (inputs(''scores'' := None))
   \<and> (inputs ''scores'' = None \<and> model inputs = Inr (queries, docs)
        \<and> shapes_ok queries docs \<and> 1 \<le> doc_count docs \<longrightarrow>
        (\<exists>loss. fst (FirstStageTrainer_compute_loss model self inputs) = Inr loss))
   \<and> ((\<forall>b. model b \<noteq> Inl KeyError) \<longrightarrow>
        fst (FirstStageTrainer_compute_loss model self inputs) \<noteq> Inl KeyError)"
proof (intro conjI impI)
  show "FirstStageTrainer_compute_loss model self (inputs(''scores'' \<mapsto> v))
     = FirstStageTrainer_compute_loss model self (inputs(''scores'' := None))"
    by (simp add: FirstStageTrainer_compute_loss_def)
next
  assume a: "inputs ''scores'' = None \<and> model inputs = Inr (queries, docs)
        \<and> shapes_ok queries docs \<and> 1 \<le> doc_count docs"
  then have i: "inputs(''scores'' := None) = inputs" by auto
  from a obtain ce where ce: "ce_loss (all_scores queries docs) = Inr ce"
    using ce_loss_all_scores_defined by blast
  have "model (inputs(''scores'' := None)) = Inr (queries, docs)"
    using a i by simp
  moreover have "shapes_ok queries docs" using a by simp
  ultimately show "\<exists>loss. fst (FirstStageTrainer_compute_loss model self inputs) = Inr loss"
    using ce by (simp add: fs_success [where queries = queries and docs = docs and ce = ce])
next
  assume "\<forall>b. model b \<noteq> Inl KeyError"
  then show "fst (FirstStageTrainer_compute_loss model self inputs) \<noteq> Inl KeyError"
    by (rule fs_no_key_error)
qed

theorem first_stage_tolerates_missing_scores_witness:
  "FirstStageTrainer_compute_loss
       (\<lambda>b. case b ''x'' of None \<Rightarrow> Inl ModelError | Some x \<Rightarrow> Inr ([x], [[x, [0, 1]]]))
       \<lparr>n_negatives = 1, splade_doc = False, dense = True, lambda_d = 1, lambda_q = 1,
        step = 0, last_celoss = [], last_flops = [], last_anti_zero = [], last_docs = [],
        last_queries = []\<rparr> [''x'' \<mapsto> [1, 2], ''scores'' \<mapsto> [7, 8]]
     = FirstStageTrainer_compute_loss
       (\<lambda>b. case b ''x'' of None \<Rightarrow> Inl ModelError | Some x \<Rightarrow> Inr ([x], [[x, [0, 1]]]))
       \<lparr>n_negatives = 1, splade_doc = False, dense = True, lambda_d = 1, lambda_q = 1,
        step = 0, last_celoss = [], last_flops = [], last_anti_zero = [], last_docs = [],
        last_queries = []\<rparr> [''x'' \<mapsto> [1, 2]]
   \<and> (\<exists>loss. fst (FirstStageTrainer_compute_loss
       (\<lambda>b. case b ''x'' of None \<Rightarrow> Inl ModelError | Some x \<Rightarrow> Inr ([x], [[x, [0, 1]]]))
       \<lparr>n_negatives = 1, splade_doc = False, dense = True, lambda_d = 1, lambda_q = 1,
        step = 0, last_celoss = [], last_flops = [], last_anti_zero = [], last_docs = [],
        last_queries = []\<rparr> [''x'' \<mapsto> [1, 2]]) = Inr loss)
   \<and> fst (FirstStageTrainer_compute_loss
       (\<lambda>b. case b ''x'' of None \<Rightarrow> Inl ModelError | Some x \<Rightarrow> Inr ([x], [[x, [0, 1]]]))
       \<lparr>n_negatives = 1, splade_doc = False, dense = True, lambda_d = 1, lambda_q = 1,
        step = 0, last_celoss = [], last_flops = [], last_anti_zero = [], last_docs = [],
        last_queries = []\<rparr> Map.empty) = Inl ModelError
   \<and> fst (FirstStageTrainer_compute_loss
       (\<lambda>b. case b ''x'' of None \<Rightarrow> Inl ModelError | Some x \<Rightarrow> Inr ([x], [[x, [0, 1]]]))
       \<lparr>n_negatives = 1, splade_doc = False, dense = True, lambda_d = 1, lambda_q = 1,
        step = 0, last_celoss = [], last_flops = [], last_anti_zero = [], last_docs = [],
        last_queries = []\<rparr> Map.empty) \<noteq> Inl KeyError"
proof -
  let ?M = "(\<lambda>b. case b ''x'' of None \<Rightarrow> Inl ModelError | Some x \<Rightarrow> Inr ([x], [[x, [0, 1]]]))
      :: dual_model"
  let ?T = "\<lparr>n_negatives = 1, splade_doc = False, dense = True, lambda_d = 1, lambda_q = 1,
        step = 0, last_celoss = [], last_flops = [], last_anti_zero = [], last_docs = [],
        last_queries = []\<rparr>"
  let ?I = "[''x'' \<mapsto> [1, 2 :: real]]"
  note t = first_stage_tolerates_missing_scores [where model = ?M and self = ?T]
  have u: "?I(''scores'' := None) = ?I"
    by (rule ext) simp
  have a: "FirstStageTrainer_compute_loss ?M ?T [''x'' \<mapsto> [1, 2], ''scores'' \<mapsto> [7, 8]]
      = FirstStageTrainer_compute_loss ?M ?T ?I"
    using t [where inputs = ?I and v = "[7, 8]", THEN conjunct1] unfolding u .
  have h: "?I ''scores'' = None \<and> ?M ?I = Inr ([[1, 2]], [[[1, 2], [0, 1]]])
      \<and> shapes_ok [[1, 2]] [[[1, 2], [0, 1]]] \<and> 1 \<le> doc_count [[[1, 2], [0, 1]]]"
    by (simp add: shapes_ok_def rep_dim_def doc_count_def)
  have b: "\<exists>loss. fst (FirstStageTrainer_compute_loss ?M ?T ?I) = Inr loss"
    by (rule t [where inputs = ?I, THEN conjunct2, THEN conjunct1, THEN mp, OF h])
  have c: "fst (FirstStageTrainer_compute_loss ?M ?T Map.empty) = Inl ModelError"
    by (simp add: FirstStageTrainer_compute_loss_def)
  have k: "\<forall>b. ?M b \<noteq> Inl KeyError"
    by (simp split: option.split)
  have d: "fst (FirstStageTrainer_compute_loss ?M ?T Map.empty) \<noteq> Inl KeyError"
    by (rule t [where inputs = Map.empty, THEN conjunct2, THEN conjunct2, THEN mp, OF k])
  from a b c d show ?thesis by blast
qed

subsection \<open>The teacher scores in distillation\<close>

lemma rr2_inputs_after:
  "inputs ''scores'' = Some ts \<Longrightarrow>
   snd (snd (RerankerTrainer2_compute_loss model self inputs)) = inputs(''scores'' := None)"
  by (simp add: RerankerTrainer2_compute_loss_def Let_def split: sum.splits)

lemma distil_inputs_after:
  "inputs ''scores'' = Some ts \<Longrightarrow>
   snd (snd (DistilTrainer_compute_loss model self inputs)) = inputs(''scores'' := None)"
  by (simp add: DistilTrainer_compute_loss_def Let_def split_beta split: sum.splits)

lemma rr2_model_arg:
  "inputs ''scores'' = Some ts \<Longrightarrow>
   model (inputs(''scores'' := None)) = model' (inputs(''scores'' := None)) \<Longrightarrow>
   RerankerTrainer2_compute_loss model self inputs
     = RerankerTrainer2_compute_loss model' self inputs"
  by (simp add: RerankerTrainer2_compute_loss_def Let_def)

lemma distil_model_arg:
  "inputs ''scores'' = Some ts \<Longrightarrow>
   model (inputs(''scores'' := None)) = model' (inputs(''scores'' := None)) \<Longrightarrow>
   DistilTrainer_compute_loss model self inputs
     = DistilTrainer_compute_loss model' self inputs"
  by (simp add: DistilTrainer_compute_loss_def Let_def)

text \<open>
  C10. The two distillation trainers need the teacher scores. On a batch without a
  \<open>"scores"\<close> entry \<open>RerankerTrainer2.compute_loss\<close> and \<open>DistilTrainer.compute_loss\<close>
  raise \<open>KeyError\<close> and change neither the trainer nor the batch. On a batch with the
  entry, the caller's batch dict after the call is the batch without \<open>"scores"\<close>,
  whatever happens later in the call, and the model is applied to that reduced dict:
  two models that agree on it give the same outcome.
\<close>

theorem distillation_requires_scores:
  "(inputs ''scores'' = None \<longrightarrow>
      RerankerTrainer2_compute_loss cmodel rself inputs = (Inl KeyError, rself, inputs)
      \<and> DistilTrainer_compute_loss dmodel dself inputs = (Inl KeyError, dself, inputs))
   \<and> (inputs ''scores'' = Some ts \<longrightarrow>
      snd (snd (RerankerTrainer2_compute_loss cmodel rself inputs)) = inputs(''scores'' := None)
      \<and> snd (snd (DistilTrainer_compute_loss dmodel dself inputs)) = inputs(''scores'' := None)
      \<and> ''scores'' \<notin> dom (snd (snd (RerankerTrainer2_compute_loss cmodel rself inputs)))
      \<and> ''scores'' \<notin> dom (snd (snd (DistilTrainer_compute_loss dmodel dself inputs)))
      \<and> (cmodel (inputs(''scores'' := None)) = cmodel' (inputs(''scores'' := None)) \<longrightarrow>
           RerankerTrainer2_compute_loss cmodel rself inputs
             = RerankerTrainer2_compute_loss cmodel' rself inputs)
      \<and> (dmodel (inputs(''scores'' := None)) = dmodel' (inputs(''scores'' := None)) \<longrightarrow>
           DistilTrainer_compute_loss dmodel dself inputs
             = DistilTrainer_compute_loss dmodel' dself inputs))"
proof (intro conjI impI)
  assume n: "inputs ''scores'' = None"
  show "RerankerTrainer2_compute_loss cmodel rself inputs = (Inl KeyError, rself, inputs)"
    using n by (simp add: RerankerTrainer2_compute_loss_def)
  show "DistilTrainer_compute_loss dmodel dself inputs = (Inl KeyError, dself, inputs)"
    using n by (simp add: DistilTrainer_compute_loss_def)
next
  assume s: "inputs ''scores'' = Some ts"
  show r: "snd (snd (RerankerTrainer2_compute_loss cmodel rself inputs)) = inputs(''scores'' := None)"
    using s by (rule rr2_inputs_after)
  show d: "snd (snd (DistilTrainer_compute_loss dmodel dself inputs)) = inputs(''scores'' := None)"
    using s by (rule distil_inputs_after)
  show "''scores'' \<notin> dom (snd (snd (RerankerTrainer2_compute_loss cmodel rself inputs)))"
    unfolding r by simp
  show "''scores'' \<notin> dom (snd (snd (DistilTrainer_compute_loss dmodel dself inputs)))"
    unfolding d by simp
  show "RerankerTrainer2_compute_loss cmodel rself inputs
      = RerankerTrainer2_compute_loss cmodel' rself inputs"
    if "cmodel (inputs(''scores'' := None)) = cmodel' (inputs(''scores'' := None))"
    using s that by (rule rr2_model_arg)
  show "DistilTrainer_compute_loss dmodel dself inputs
      = DistilTrainer_compute_loss dmodel' dself inputs"
    if "dmodel (inputs(''scores'' := None)) = dmodel' (inputs(''scores'' := None))"
    using s that by (rule distil_model_arg)
qed

theorem distillation_requires_scores_witness:
  "RerankerTrainer2_compute_loss (\<lambda>b. Inr [[0]])
       \<lparr>rr_n_negatives = 0, rr_mse_margin = False, rr_last_celoss = None,
        rr_last_distilloss = None\<rparr> Map.empty
     = (Inl KeyError, \<lparr>rr_n_negatives = 0, rr_mse_margin = False, rr_last_celoss = None,
        rr_last_distilloss = None\<rparr>, Map.empty)
   \<and> fst (DistilTrainer_compute_loss (\<lambda>b. Inr ([[1]], [[[2]]]))
       \<lparr>n_negatives = 0, splade_doc = False, dense = True, lambda_d = 1, lambda_q = 1,
        step = 0, last_celoss = [], last_flops = [], last_anti_zero = [], last_docs = [],
        last_queries = [], mse_margin = False, last_distilloss = []\<rparr> Map.empty)
     = Inl KeyError
   \<and> snd (snd (RerankerTrainer2_compute_loss (\<lambda>b. Inr [[0]])
       \<lparr>rr_n_negatives = 0, rr_mse_margin = False, rr_last_celoss = None,
        rr_last_distilloss = None\<rparr> [''x'' \<mapsto> [1], ''scores'' \<mapsto> [2]]))
     = [''x'' \<mapsto> [1]]
   \<and> snd (snd (DistilTrainer_compute_loss (\<lambda>b. Inr ([[1]], [[[2]]]))
       \<lparr>n_negatives = 0, splade_doc = False, dense = True, lambda_d = 1, lambda_q = 1,
        step = 0, last_celoss = [], last_flops = [], last_anti_zero = [], last_docs = [],
        last_queries = [], mse_margin = False, last_distilloss = []\<rparr>
       [''x'' \<mapsto> [1], ''scores'' \<mapsto> [2]]))
     = [''x'' \<mapsto> [1]]
   \<and> RerankerTrainer2_compute_loss (\<lambda>b. Inr [[0]])
       \<lparr>rr_n_negatives = 0, rr_mse_margin = False, rr_last_celoss = None,
        rr_last_distilloss = None\<rparr> [''x'' \<mapsto> [1], ''scores'' \<mapsto> [2]]
     = RerankerTrainer2_compute_loss
       (\<lambda>b. if b ''scores'' = None then Inr [[0]] else Inl ModelError)
       \<lparr>rr_n_negatives = 0, rr_mse_margin = False, rr_last_celoss = None,
        rr_last_distilloss = None\<rparr> [''x'' \<mapsto> [1], ''scores'' \<mapsto> [2]]
   \<and> DistilTrainer_compute_loss (\<lambda>b. Inr ([[1]], [[[2]]]))
       \<lparr>n_negatives = 0, splade_doc = False, dense = True, lambda_d = 1, lambda_q = 1,
        step = 0, last_celoss = [], last_flops = [], last_anti_zero = [], last_docs = [],
        last_queries = [], mse_margin = False, last_distilloss = []\<rparr>
       [''x'' \<mapsto> [1], ''scores'' \<mapsto> [2]]
     = DistilTrainer_compute_loss
       (\<lambda>b. if b ''scores'' = None then Inr ([[1]], [[[2]]]) else Inl ModelError)
       \<lparr>n_negatives = 0, splade_doc = False, dense = True, lambda_d = 1, lambda_q = 1,
        step = 0, last_celoss = [], last_flops = [], last_anti_zero = [], last_docs = [],
        last_queries = [], mse_margin = False, last_distilloss = []\<rparr>
       [''x'' \<mapsto> [1], ''scores'' \<mapsto> [2]]"
proof -
  let ?CM = "(\<lambda>b. Inr [[0]]) :: cross_model"
  let ?CM' = "(\<lambda>b. if b ''scores'' = None then Inr [[0]] else Inl ModelError) :: cross_model"
  let ?DM = "(\<lambda>b. Inr ([[1]], [[[2]]])) :: dual_model"
  let ?DM' = "(\<lambda>b. if b ''scores'' = None then Inr ([[1]], [[[2]]]) else Inl ModelError)
      :: dual_model"
  let ?RS = "\<lparr>rr_n_negatives = 0, rr_mse_margin = False, rr_last_celoss = None,
        rr_last_distilloss = None\<rparr>"
  let ?DS = "\<lparr>n_negatives = 0, splade_doc = False, dense = True, lambda_d = 1, lambda_q = 1,
        step = 0, last_celoss = [], last_flops = [], last_anti_zero = [], last_docs = [],
        last_queries = [], mse_margin = False, last_distilloss = []\<rparr>"
  let ?I = "[''x'' \<mapsto> [1], ''scores'' \<mapsto> [2 :: real]]"
  have u: "?I(''scores'' := None) = [''x'' \<mapsto> [1]]"
    by (rule ext) simp
  have e: "(Map.empty :: batch) ''scores'' = None" by simp
  have p: "?I ''scores'' = Some [2]" by simp
  note t0 = distillation_requires_scores
    [where inputs = Map.empty and cmodel = ?CM and dmodel = ?DM and rself = ?RS and dself = ?DS,
      THEN conjunct1, THEN mp, OF e]
  note t1 = distillation_requires_scores
    [where inputs = ?I and cmodel = ?CM and dmodel = ?DM and rself = ?RS and dself = ?DS
      and cmodel' = ?CM' and dmodel' = ?DM' and ts = "[2]",
      THEN conjunct2, THEN mp, OF p]
  have a: "RerankerTrainer2_compute_loss ?CM ?RS Map.empty = (Inl KeyError, ?RS, Map.empty)"
    by (rule t0 [THEN conjunct1])
  have b: "fst (DistilTrainer_compute_loss ?DM ?DS Map.empty) = Inl KeyError"
    using t0 [THEN conjunct2] by simp
  have c: "snd (snd (RerankerTrainer2_compute_loss ?CM ?RS ?I)) = [''x'' \<mapsto> [1]]"
    using t1 [THEN conjunct1] unfolding u .
  have d: "snd (snd (DistilTrainer_compute_loss ?DM ?DS ?I)) = [''x'' \<mapsto> [1]]"
    using t1 [THEN conjunct2, THEN conjunct1] unfolding u .
  have f: "RerankerTrainer2_compute_loss ?CM ?RS ?I = RerankerTrainer2_compute_loss ?CM' ?RS ?I"
    by (rule t1 [THEN conjunct2, THEN conjunct2, THEN conjunct2, THEN conjunct2,
          THEN conjunct1, THEN mp]) simp
  have g: "DistilTrainer_compute_loss ?DM ?DS ?I = DistilTrainer_compute_loss ?DM' ?DS ?I"
    by (rule t1 [THEN conjunct2, THEN conjunct2, THEN conjunct2, THEN conjunct2,
          THEN conjunct2, THEN mp]) simp
  from a b c d f g show ?thesis by blast
qed

subsection \<open>The regularisation term\<close>

lemma sparse_block_not_dense:
  assumes "\<not> dense self"
  shows "fst (sparse_block loss queries docs self)
       = fadd (fadd loss (reg_term (lambda_d self) (lambda_q self) (splade_doc self) queries docs))
              (anti_zero_term queries docs)"
    and "last_flops (snd (sparse_block loss queries docs self))
       = last_flops self
         @ [reg_term (lambda_d self) (lambda_q self) (splade_doc self) queries docs]"
  using assms by (simp_all add: sparse_block_def Let_def)

lemma reg_term_cases:
  "reg_term ld lq sd queries docs
     = (if sd then fscale ld (flops (concat docs))
        else fadd (fscale ld (flops (concat docs))) (fscale lq (L1 queries)))"
  by (simp add: reg_term_def Let_def)

lemma fs_reg:
  assumes "\<not> dense self" and "model (inputs(''scores'' := None)) = Inr (queries, docs)"
    and "shapes_ok queries docs" and "ce_loss (all_scores queries docs) = Inr ce"
  shows "fst (FirstStageTrainer_compute_loss model self inputs)
       = Inr (fadd (fadd ce (reg_term (lambda_d self) (lambda_q self) (splade_doc self)
                               queries docs))
                   (anti_zero_term queries docs))"
    and "last_flops (fst (snd (FirstStageTrainer_compute_loss model self inputs)))
       = last_flops self
         @ [reg_term (lambda_d self) (lambda_q self) (splade_doc self) queries docs]"
  using assms(1) by (simp_all add: fs_success [where model = model and inputs = inputs, OF assms(2-4)] sparse_block_not_dense)

lemma distil_reg:
  assumes "\<not> dense self" and "inputs ''scores'' = Some ts"
    and "length ts = length queries * doc_count docs"
    and "model (inputs(''scores'' := None)) = Inr (queries, docs)"
    and "shapes_ok queries docs" and "ce_loss (all_scores queries docs) = Inr ce"
  shows "fst (DistilTrainer_compute_loss model self inputs)
       = Inr (fadd (fadd (fadd (fscale (1/100) ce)
                               (fscale (99/100)
                                  (distil_term (mse_margin self) (pair_scores queries docs)
                                     (rows_of (length queries) (doc_count docs) ts))))
                         (reg_term (lambda_d self) (lambda_q self) (splade_doc self)
                               queries docs))
                   (anti_zero_term queries docs))"
    and "last_flops (fst (snd (DistilTrainer_compute_loss model self inputs)))
       = last_flops self
         @ [reg_term (lambda_d self) (lambda_q self) (splade_doc self) queries docs]"
  using assms(1) by (simp_all add: distil_success [where model = model and inputs = inputs, OF assms(2-6)] Let_def sparse_block_not_dense)

lemma example_flops_docs: "flops [[1, 0], [0, 1], [0, 1], [1, 1]] = Fin (13/16)"
  by (simp add: flops_def mean_abs_dim0_def upt_rec power2_eq_square)

lemma example_L1_queries: "L1 [[1, 0], [0, 1]] = Fin 1"
  by (simp add: L1_def mean_def)

lemma example_ce_defined:
  "ce_loss (all_scores [[1, 0], [0, 1]] [[[1, 0], [0, 1]], [[0, 1], [1, 1]]])
   = Inr (mean (map (\<lambda>i. ce0 (in_batch_row [[1, 0], [0, 1]]
                                [[[1, 0], [0, 1]], [[0, 1], [1, 1]]] i))
                [0..<length [[1, 0], [0, 1 :: real]]]))"
  by (rule contrastive_value [OF example_shapes_ok]) (simp add: doc_count_def)

text \<open>
  C3, as the code has it. In the sparse (non-dense) dual-encoder trainers the
  regularisation value, which is added to the loss and appended to \<open>last_flops\<close>, is
  \<open>lambda_d\<close> times the FLOPS surrogate of the documents, plus \<open>lambda_q\<close> times the L1
  penalty of the queries exactly when \<open>splade_doc\<close> is off. With \<open>splade_doc\<close> on no L1
  term on the queries is added.
\<close>

theorem query_L1_added_unless_splade_doc:
  assumes "shapes_ok queries docs" and "ce_loss (all_scores queries docs) = Inr ce"
  shows
  "(\<not> dense fself \<and> fmodel (inputs(''scores'' := None)) = Inr (queries, docs) \<longrightarrow>
      last_flops (fst (snd (FirstStageTrainer_compute_loss fmodel fself inputs)))
        = last_flops fself
          @ [if splade_doc fself then fscale (lambda_d fself) (flops (concat docs))
             else fadd (fscale (lambda_d fself) (flops (concat docs)))
                       (fscale (lambda_q fself) (L1 queries))]
      \<and> fst (FirstStageTrainer_compute_loss fmodel fself inputs)
        = Inr (fadd (fadd ce
                 (if splade_doc fself then fscale (lambda_d fself) (flops (concat docs))
                  else fadd (fscale (lambda_d fself) (flops (concat docs)))
                            (fscale (lambda_q fself) (L1 queries))))
                 (anti_zero_term queries docs)))
   \<and> (\<not> dense dself \<and> inputs ''scores'' = Some ts
       \<and> length ts = length queries * doc_count docs
       \<and> dmodel (inputs(''scores'' := None)) = Inr (queries, docs) \<longrightarrow>
      last_flops (fst (snd (DistilTrainer_compute_loss dmodel dself inputs)))
        = last_flops dself
          @ [if splade_doc dself then fscale (lambda_d dself) (flops (concat docs))
             else fadd (fscale (lambda_d dself) (flops (concat docs)))
                       (fscale (lambda_q dself) (L1 queries))]
      \<and> fst (DistilTrainer_compute_loss dmodel dself inputs)
        = Inr (fadd (fadd (fadd (fscale (1/100) ce)
                 (fscale (99/100)
                    (distil_term (mse_margin dself) (pair_scores queries docs)
                       (rows_of (length queries) (doc_count docs) ts))))
                 (if splade_doc dself then fscale (lambda_d dself) (flops (concat docs))
                  else fadd (fscale (lambda_d dself) (flops (concat docs)))
                            (fscale (lambda_q dself) (L1 queries))))
                 (anti_zero_term queries docs)))"
proof (intro conjI impI)
  assume a: "\<not> dense fself \<and> fmodel (inputs(''scores'' := None)) = Inr (queries, docs)"
  then have d: "\<not> dense fself" and m: "fmodel (inputs(''scores'' := None)) = Inr (queries, docs)"
    by simp_all
  note r = fs_reg [where model = fmodel and inputs = inputs, OF d m assms]
  show "last_flops (fst (snd (FirstStageTrainer_compute_loss fmodel fself inputs)))
        = last_flops fself
          @ [if splade_doc fself then fscale (lambda_d fself) (flops (concat docs))
             else fadd (fscale (lambda_d fself) (flops (concat docs)))
                       (fscale (lambda_q fself) (L1 queries))]"
    unfolding r(2) reg_term_cases ..
  show "fst (FirstStageTrainer_compute_loss fmodel fself inputs)
        = Inr (fadd (fadd ce
                 (if splade_doc fself then fscale (lambda_d fself) (flops (concat docs))
                  else fadd (fscale (lambda_d fself) (flops (concat docs)))
                            (fscale (lambda_q fself) (L1 queries))))
                 (anti_zero_term queries docs))"
    unfolding r(1) reg_term_cases ..
next
  assume a: "\<not> dense dself \<and> inputs ''scores'' = Some ts
       \<and> length ts = length queries * doc_count docs
       \<and> dmodel (inputs(''scores'' := None)) = Inr (queries, docs)"
  then have d: "\<not> dense dself" and s: "inputs ''scores'' = Some ts"
    and l: "length ts = length queries * doc_count docs"
    and m: "dmodel (inputs(''scores'' := None)) = Inr (queries, docs)"
    by simp_all
  note r = distil_reg [where model = dmodel and inputs = inputs, OF d s l m assms]
  show "last_flops (fst (snd (DistilTrainer_compute_loss dmodel dself inputs)))
        = last_flops dself
          @ [if splade_doc dself then fscale (lambda_d dself) (flops (concat docs))
             else fadd (fscale (lambda_d dself) (flops (concat docs)))
                       (fscale (lambda_q dself) (L1 queries))]"
    unfolding r(2) reg_term_cases ..
  show "fst (DistilTrainer_compute_loss dmodel dself inputs)
        = Inr (fadd (fadd (fadd (fscale (1/100) ce)
                 (fscale (99/100)
                    (distil_term (mse_margin dself) (pair_scores queries docs)
                       (rows_of (length queries) (doc_count docs) ts))))
                 (if splade_doc dself then fscale (lambda_d dself) (flops (concat docs))
                  else fadd (fscale (lambda_d dself) (flops (concat docs)))
                            (fscale (lambda_q dself) (L1 queries))))
                 (anti_zero_term queries docs))"
    unfolding r(1) reg_term_cases ..
qed

theorem query_L1_added_unless_splade_doc_witness:
  "last_flops (fst (snd (FirstStageTrainer_compute_loss
        (\<lambda>b. Inr ([[1, 0], [0, 1]], [[[1, 0], [0, 1]], [[0, 1], [1, 1]]]))
        \<lparr>n_negatives = 1, splade_doc = True, dense = False, lambda_d = 2, lambda_q = 3,
         step = 0, last_celoss = [], last_flops = [], last_anti_zero = [], last_docs = [],
         last_queries = []\<rparr> Map.empty)))
     = [Fin (13/8)]
   \<and> last_flops (fst (snd (DistilTrainer_compute_loss
        (\<lambda>b. Inr ([[1, 0], [0, 1]], [[[1, 0], [0, 1]], [[0, 1], [1, 1]]]))
        \<lparr>n_negatives = 1, splade_doc = False, dense = False, lambda_d = 2, lambda_q = 3,
         step = 0, last_celoss = [], last_flops = [], last_anti_zero = [], last_docs = [],
         last_queries = [], mse_margin = True, last_distilloss = []\<rparr>
        [''scores'' \<mapsto> [3, 1, 2, 0]])))
     = [Fin (37/8)]"
proof -
  let ?Q = "[[1, 0], [0, 1]] :: real list list"
  let ?D = "[[[1, 0], [0, 1]], [[0, 1], [1, 1]]] :: real list list list"
  let ?M = "(\<lambda>b. Inr (?Q, ?D)) :: dual_model"
  let ?F = "\<lparr>n_negatives = 1, splade_doc = True, dense = False, lambda_d = 2, lambda_q = 3,
         step = 0, last_celoss = [], last_flops = [], last_anti_zero = [], last_docs = [],
         last_queries = []\<rparr>"
  let ?T = "\<lparr>n_negatives = 1, splade_doc = False, dense = False, lambda_d = 2, lambda_q = 3,
         step = 0, last_celoss = [], last_flops = [], last_anti_zero = [], last_docs = [],
         last_queries = [], mse_margin = True, last_distilloss = []\<rparr>"
  let ?I = "[''scores'' \<mapsto> [3, 1, 2, 0 :: real]]"
  note t = query_L1_added_unless_splade_doc [OF example_shapes_ok example_ce_defined]
  have hf: "\<not> dense ?F \<and> ?M (Map.empty(''scores'' := None)) = Inr (?Q, ?D)"
    by simp
  have hd: "\<not> dense ?T \<and> ?I ''scores'' = Some [3, 1, 2, 0]
      \<and> length [3, 1, 2, 0 :: real] = length ?Q * doc_count ?D
      \<and> ?M (?I(''scores'' := None)) = Inr (?Q, ?D)"
    by (simp add: doc_count_def)
  have a: "last_flops (fst (snd (FirstStageTrainer_compute_loss ?M ?F Map.empty))) = [Fin (13/8)]"
    using t [where fmodel = ?M and fself = ?F and inputs = Map.empty,
        THEN conjunct1, THEN mp, OF hf, THEN conjunct1]
    by (simp add: example_flops_docs)
  have b: "last_flops (fst (snd (DistilTrainer_compute_loss ?M ?T ?I))) = [Fin (37/8)]"
    using t [where dmodel = ?M and dself = ?T and inputs = ?I and ts = "[3, 1, 2, 0]",
        THEN conjunct2, THEN mp, OF hd, THEN conjunct1]
    by (simp add: example_flops_docs example_L1_queries)
  from a b show ?thesis by blast
qed

text \<open>
  The statement of C3 fails on the code: with \<open>splade_doc\<close> on, the recorded
  regularisation is \<open>lambda_d\<close> times the FLOPS term alone, without the L1 term the
  claim puts there; with \<open>splade_doc\<close> off it contains the L1 term the claim excludes.
\<close>

theorem query_L1_with_splade_doc_counterexample:
  "last_flops (fst (snd (FirstStageTrainer_compute_loss
        (\<lambda>b. Inr ([[1, 0], [0, 1]], [[[1, 0], [0, 1]], [[0, 1], [1, 1]]]))
        \<lparr>n_negatives = 1, splade_doc = True, dense = False, lambda_d = 2, lambda_q = 3,
         step = 0, last_celoss = [], last_flops = [], last_anti_zero = [], last_docs = [],
         last_queries = []\<rparr> Map.empty)))
     = [fscale 2 (flops (concat [[[1, 0], [0, 1]], [[0, 1], [1, 1]]]))]
   \<and> last_flops (fst (snd (FirstStageTrainer_compute_loss
        (\<lambda>b. Inr ([[1, 0], [0, 1]], [[[1, 0], [0, 1]], [[0, 1], [1, 1]]]))
        \<lparr>n_negatives = 1, splade_doc = False, dense = False, lambda_d = 2, lambda_q = 3,
         step = 0, last_celoss = [], last_flops = [], last_anti_zero = [], last_docs = [],
         last_queries = []\<rparr> Map.empty)))
     = [fadd (fscale 2 (flops (concat [[[1, 0], [0, 1]], [[0, 1], [1, 1]]])))
             (fscale 3 (L1 [[1, 0], [0, 1]]))]
   \<and> fscale 2 (flops (concat [[[1, 0], [0, 1]], [[0, 1], [1, 1]]])) = Fin (13/8)
   \<and> fadd (fscale 2 (flops (concat [[[1, 0], [0, 1]], [[0, 1], [1, 1]]])))
           (fscale 3 (L1 [[1, 0], [0, 1]])) = Fin (37/8)"
proof -
  let ?Q = "[[1, 0], [0, 1]] :: real list list"
  let ?D = "[[[1, 0], [0, 1]], [[0, 1], [1, 1]]] :: real list list list"
  let ?M = "(\<lambda>b. Inr (?Q, ?D)) :: dual_model"
  have m: "?M ((Map.empty :: batch)(''scores'' := None)) = Inr (?Q, ?D)" by simp
  have a: "last_flops (fst (snd (FirstStageTrainer_compute_loss ?M
        \<lparr>n_negatives = 1, splade_doc = True, dense = False, lambda_d = 2, lambda_q = 3,
         step = 0, last_celoss = [], last_flops = [], last_anti_zero = [], last_docs = [],
         last_queries = []\<rparr> Map.empty)))
     = [fscale 2 (flops (concat ?D))]"
    by (simp add: fs_reg(2) [where model = ?M and inputs = Map.empty,
          OF _ m example_shapes_ok example_ce_defined] reg_term_cases)
  have b: "last_flops (fst (snd (FirstStageTrainer_compute_loss ?M
        \<lparr>n_negatives = 1, splade_doc = False, dense = False, lambda_d = 2, lambda_q = 3,
         step = 0, last_celoss = [], last_flops = [], last_anti_zero = [], last_docs = [],
         last_queries = []\<rparr> Map.empty)))
     = [fadd (fscale 2 (flops (concat ?D))) (fscale 3 (L1 ?Q))]"
    by (simp add: fs_reg(2) [where model = ?M and inputs = Map.empty,
          OF _ m example_shapes_ok example_ce_defined] reg_term_cases)
  have c: "fscale 2 (flops (concat ?D)) = Fin (13/8)"
    by (simp add: example_flops_docs)
  have d: "fadd (fscale 2 (flops (concat ?D))) (fscale 3 (L1 ?Q)) = Fin (37/8)"
    by (simp add: example_flops_docs example_L1_queries)
  from a b c d show ?thesis by blast
qed

subsection \<open>The distillation term of a matching student\<close>



lemma all_fin_map_Fin: "all_fin (map Fin xs) = Some xs"
  by (induction xs) simp_all











lemma rows_of_length:
  "length xs = b * c \<Longrightarrow> r \<in> set (rows_of b c xs) \<Longrightarrow> length r = c"
proof (induction b arbitrary: xs)
  case 0
  then show ?case by simp
next
  case (Suc b)
  from Suc.prems(2) have "r = take c xs \<or> r \<in> set (rows_of b c (drop c xs))" by simp
  then show ?case
  proof
    assume "r = take c xs"
    then show ?thesis using Suc.prems(1) by simp
  next
    assume "r \<in> set (rows_of b c (drop c xs))"
    moreover have "length (drop c xs) = b * c" using Suc.prems(1) by simp
    ultimately show ?thesis by (rule Suc.IH[rotated])
  qed
qed

lemma cross_scores_rows:
  assumes "cross_scores n logits = Inr scores" "r \<in> set scores"
  shows "length r = n + 1"
proof -
  from assms(1) obtain col where col: "length col mod (n + 1) = 0"
    and sc: "scores = rows_of (length col div (n + 1)) (n + 1) col"
    by (auto simp: cross_scores_def view_rows_def split: sum.splits if_splits)
  from col have "length col = length col div (n + 1) * (n + 1)"
    by (metis div_mult_mod_eq add.right_neutral)
  then show ?thesis
    using assms(2) unfolding sc by (rule rows_of_length)
qed

lemma cross_scores_ce_defined:
  assumes "cross_scores n logits = Inr scores"
  shows "ce_loss scores = Inr (mean (map ce0 scores))"
proof (rule ce_loss_rows)
  fix r assume "r \<in> set scores"
  with assms have "length r = n + 1" by (rule cross_scores_rows)
  then show "r \<noteq> []" by auto
qed






subsection \<open>The log hooks report and reset\<close>

lemma fmean_Fin:
  "fmean (map Fin vs) = (if vs = [] then NonFin else Fin (sum_list vs / real (length vs)))"
  by (simp add: fmean_def all_fin_map_Fin mean_def)

lemma log_epoch_keys:
  "k \<noteq> ''epoch'' \<Longrightarrow> log_epoch state logs k = logs k"
  "epoch state = Some e \<Longrightarrow> log_epoch state logs ''epoch'' = Some (FloatV (Fin (round2 e)))"
  by (simp_all add: log_epoch_def split: option.splits)

lemma distil_log_logs:
  "snd (snd (DistilTrainer_log self state logs))
     = (log_sparse self (log_epoch state logs))
         (''ce_loss'' \<mapsto> FloatV (fmean (last_celoss self)),
          ''distil_loss'' \<mapsto> FloatV (fmean (last_distilloss self)))"
  by (simp add: DistilTrainer_log_def Let_def)

lemma fs_log_logs:
  "snd (snd (FirstStageTrainer_log self state logs))
     = (log_sparse self (log_epoch state logs))
         (''ce_loss'' \<mapsto> FloatV (fmean (last_celoss self)))"
  by (simp add: FirstStageTrainer_log_def Let_def)

lemma log_sparse_epoch:
  "log_sparse self logs ''epoch'' = logs ''epoch''"
  by (simp add: log_sparse_def)

lemma log_sparse_keys:
  assumes "\<not> dense self"
  shows "log_sparse self logs ''L0_d'' = Some (FloatV (fmean (last_docs self)))"
    and "log_sparse self logs ''L0_q'' = Some (FloatV (fmean (last_queries self)))"
    and "log_sparse self logs ''flops_loss'' = Some (FloatV (fmean (last_flops self)))"
    and "log_sparse self logs ''anti-zero'' = Some (FloatV (fmean (last_anti_zero self)))"
  using assms by (simp_all add: log_sparse_def)

lemma distil_log_cleared:
  "last_celoss (fst (DistilTrainer_log self state logs)) = []"
  "last_distilloss (fst (DistilTrainer_log self state logs)) = []"
  "last_flops (fst (DistilTrainer_log self state logs)) = []"
  "last_anti_zero (fst (DistilTrainer_log self state logs)) = []"
  "last_docs (fst (DistilTrainer_log self state logs)) = []"
  "last_queries (fst (DistilTrainer_log self state logs)) = []"
  by (simp_all add: DistilTrainer_log_def Let_def)

lemma fs_log_cleared:
  "last_celoss (fst (FirstStageTrainer_log self state logs)) = []"
  "last_flops (fst (FirstStageTrainer_log self state logs)) = []"
  "last_anti_zero (fst (FirstStageTrainer_log self state logs)) = []"
  "last_docs (fst (FirstStageTrainer_log self state logs)) = []"
  "last_queries (fst (FirstStageTrainer_log self state logs)) = []"
  by (simp_all add: FirstStageTrainer_log_def Let_def)

lemma distil_log_history:
  "log_history (fst (snd (DistilTrainer_log self state logs)))
     = log_history state
       @ [(snd (snd (DistilTrainer_log self state logs)))(''step'' \<mapsto> IntV (global_step state))]"
  by (simp add: DistilTrainer_log_def Let_def append_history_def)

lemma fs_log_history:
  "log_history (fst (snd (FirstStageTrainer_log self state logs)))
     = log_history state
       @ [(snd (snd (FirstStageTrainer_log self state logs)))
            (''step'' \<mapsto> IntV (global_step state))]"
  by (simp add: FirstStageTrainer_log_def Let_def append_history_def)

lemma rr2_log_values:
  assumes "rr_last_celoss self = Some c" "rr_last_distilloss self = Some d"
  shows "fst (RerankerTrainer2_log self state logs) = None"
    and "snd (snd (RerankerTrainer2_log self state logs)) ''ce_loss'' = Some (FloatV c)"
    and "snd (snd (RerankerTrainer2_log self state logs)) ''distil_loss'' = Some (FloatV d)"
  using assms by (simp_all add: RerankerTrainer2_log_def Let_def)

text \<open>
  C4, as the code has it. \<open>DistilTrainer.log\<close> and \<open>FirstStageTrainer.log\<close> write
  into the log record, for every list they keep, the mean of the values in it
  (\<open>ce_loss\<close>, for the distillation trainer \<open>distil_loss\<close>, and unless the model is
  dense \<open>L0_d\<close>, \<open>L0_q\<close>, \<open>flops_loss\<close>, \<open>anti-zero\<close>), where the mean of finite values
  is their arithmetic mean and that of no values is \<open>nan\<close>; they write the epoch,
  rounded to two decimals, when it is defined; they empty every list; and they append
  the record with the global step to the log history. \<open>RerankerTrainer2.log\<close> keeps
  no lists: it writes the cross-entropy and the distillation loss of the last step.
\<close>

theorem log_reports_means_and_clears:
  "snd (snd (DistilTrainer_log dself state logs)) ''ce_loss''
     = Some (FloatV (fmean (last_celoss dself)))
   \<and> snd (snd (DistilTrainer_log dself state logs)) ''distil_loss''
     = Some (FloatV (fmean (last_distilloss dself)))
   \<and> (\<not> dense dself \<longrightarrow>
        snd (snd (DistilTrainer_log dself state logs)) ''L0_d''
          = Some (FloatV (fmean (last_docs dself)))
        \<and> snd (snd (DistilTrainer_log dself state logs)) ''L0_q''
          = Some (FloatV (fmean (last_queries dself)))
        \<and> snd (snd (DistilTrainer_log dself state logs)) ''flops_loss''
          = Some (FloatV (fmean (last_flops dself)))
        \<and> snd (snd (DistilTrainer_log dself state logs)) ''anti-zero''
          = Some (FloatV (fmean (last_anti_zero dself))))
   \<and> (epoch state = Some e \<longrightarrow>
        snd (snd (DistilTrainer_log dself state logs)) ''epoch''
          = Some (FloatV (Fin (round2 e))))
   \<and> last_celoss (fst (DistilTrainer_log dself state logs)) = []
   \<and> last_distilloss (fst (DistilTrainer_log dself state logs)) = []
   \<and> last_flops (fst (DistilTrainer_log dself state logs)) = []
   \<and> last_anti_zero (fst (DistilTrainer_log dself state logs)) = []
   \<and> last_docs (fst (DistilTrainer_log dself state logs)) = []
   \<and> last_queries (fst (DistilTrainer_log dself state logs)) = []
   \<and> log_history (fst (snd (DistilTrainer_log dself state logs)))
     = log_history state
       @ [(snd (snd (DistilTrainer_log dself state logs)))
            (''step'' \<mapsto> IntV (global_step state))]
   \<and> snd (snd (FirstStageTrainer_log fself state logs)) ''ce_loss''
     = Some (FloatV (fmean (last_celoss fself)))
   \<and> (\<not> dense fself \<longrightarrow>
        snd (snd (FirstStageTrainer_log fself state logs)) ''L0_d''
          = Some (FloatV (fmean (last_docs fself)))
        \<and> snd (snd (FirstStageTrainer_log fself state logs)) ''L0_q''
          = Some (FloatV (fmean (last_queries fself)))
        \<and> snd (snd (FirstStageTrainer_log fself state logs)) ''flops_loss''
          = Some (FloatV (fmean (last_flops fself)))
        \<and> snd (snd (FirstStageTrainer_log fself state logs)) ''anti-zero''
          = Some (FloatV (fmean (last_anti_zero fself))))
   \<and> (epoch state = Some e \<longrightarrow>
        snd (snd (FirstStageTrainer_log fself state logs)) ''epoch''
          = Some (FloatV (Fin (round2 e))))
   \<and> last_celoss (fst (FirstStageTrainer_log fself state logs)) = []
   \<and> last_flops (fst (FirstStageTrainer_log fself state logs)) = []
   \<and> last_anti_zero (fst (FirstStageTrainer_log fself state logs)) = []
   \<and> last_docs (fst (FirstStageTrainer_log fself state logs)) = []
   \<and> last_queries (fst (FirstStageTrainer_log fself state logs)) = []
   \<and> log_history (fst (snd (FirstStageTrainer_log fself state logs)))
     = log_history state
       @ [(snd (snd (FirstStageTrainer_log fself state logs)))
            (''step'' \<mapsto> IntV (global_step state))]
   \<and> fmean (map Fin vs) = (if vs = [] then NonFin else Fin (sum_list vs / real (length vs)))
   \<and> (rr_last_celoss rself = Some c \<and> rr_last_distilloss rself = Some d \<longrightarrow>
        fst (RerankerTrainer2_log rself state logs) = None
        \<and> snd (snd (RerankerTrainer2_log rself state logs)) ''ce_loss'' = Some (FloatV c)
        \<and> snd (snd (RerankerTrainer2_log rself state logs)) ''distil_loss'' = Some (FloatV d))"
proof (intro conjI impI)
  show "snd (snd (DistilTrainer_log dself state logs)) ''ce_loss''
     = Some (FloatV (fmean (last_celoss dself)))"
    by (simp add: distil_log_logs)
  show "snd (snd (DistilTrainer_log dself state logs)) ''distil_loss''
     = Some (FloatV (fmean (last_distilloss dself)))"
    by (simp add: distil_log_logs)
  show "snd (snd (FirstStageTrainer_log fself state logs)) ''ce_loss''
     = Some (FloatV (fmean (last_celoss fself)))"
    by (simp add: fs_log_logs)
  show "fmean (map Fin vs) = (if vs = [] then NonFin else Fin (sum_list vs / real (length vs)))"
    by (rule fmean_Fin)
  show "log_history (fst (snd (DistilTrainer_log dself state logs)))
     = log_history state
       @ [(snd (snd (DistilTrainer_log dself state logs)))
            (''step'' \<mapsto> IntV (global_step state))]"
    by (rule distil_log_history)
  show "log_history (fst (snd (FirstStageTrainer_log fself state logs)))
     = log_history state
       @ [(snd (snd (FirstStageTrainer_log fself state logs)))
            (''step'' \<mapsto> IntV (global_step state))]"
    by (rule fs_log_history)
next
  assume nd: "\<not> dense dself"
  show "snd (snd (DistilTrainer_log dself state logs)) ''L0_d''
          = Some (FloatV (fmean (last_docs dself)))"
    by (simp add: distil_log_logs log_sparse_keys [OF nd])
  show "snd (snd (DistilTrainer_log dself state logs)) ''L0_q''
          = Some (FloatV (fmean (last_queries dself)))"
    by (simp add: distil_log_logs log_sparse_keys [OF nd])
  show "snd (snd (DistilTrainer_log dself state logs)) ''flops_loss''
          = Some (FloatV (fmean (last_flops dself)))"
    by (simp add: distil_log_logs log_sparse_keys [OF nd])
  show "snd (snd (DistilTrainer_log dself state logs)) ''anti-zero''
          = Some (FloatV (fmean (last_anti_zero dself)))"
    by (simp add: distil_log_logs log_sparse_keys [OF nd])
next
  assume nd: "\<not> dense fself"
  show "snd (snd (FirstStageTrainer_log fself state logs)) ''L0_d''
          = Some (FloatV (fmean (last_docs fself)))"
    by (simp add: fs_log_logs log_sparse_keys [OF nd])
  show "snd (snd (FirstStageTrainer_log fself state logs)) ''L0_q''
          = Some (FloatV (fmean (last_queries fself)))"
    by (simp add: fs_log_logs log_sparse_keys [OF nd])
  show "snd (snd (FirstStageTrainer_log fself state logs)) ''flops_loss''
          = Some (FloatV (fmean (last_flops fself)))"
    by (simp add: fs_log_logs log_sparse_keys [OF nd])
  show "snd (snd (FirstStageTrainer_log fself state logs)) ''anti-zero''
          = Some (FloatV (fmean (last_anti_zero fself)))"
    by (simp add: fs_log_logs log_sparse_keys [OF nd])
next
  assume ep: "epoch state = Some e"
  show "snd (snd (DistilTrainer_log dself state logs)) ''epoch''
          = Some (FloatV (Fin (round2 e)))"
    by (simp add: distil_log_logs log_sparse_epoch log_epoch_keys(2) [OF ep])
next
  assume ep: "epoch state = Some e"
  show "snd (snd (FirstStageTrainer_log fself state logs)) ''epoch''
          = Some (FloatV (Fin (round2 e)))"
    by (simp add: fs_log_logs log_sparse_epoch log_epoch_keys(2) [OF ep])
next
  assume a: "rr_last_celoss rself = Some c \<and> rr_last_distilloss rself = Some d"
  then have c: "rr_last_celoss rself = Some c" and d: "rr_last_distilloss rself = Some d"
    by simp_all
  show "fst (RerankerTrainer2_log rself state logs) = None"
    using c d by (rule rr2_log_values)
  show "snd (snd (RerankerTrainer2_log rself state logs)) ''ce_loss'' = Some (FloatV c)"
    using c d by (rule rr2_log_values)
  show "snd (snd (RerankerTrainer2_log rself state logs)) ''distil_loss'' = Some (FloatV d)"
    using c d by (rule rr2_log_values)
qed (simp_all add: distil_log_cleared fs_log_cleared)

theorem log_reports_means_and_clears_witness:
  "snd (snd (DistilTrainer_log
        \<lparr>n_negatives = 1, splade_doc = False, dense = False, lambda_d = 1, lambda_q = 1,
         step = 2, last_celoss = [Fin 1, Fin 3], last_flops = [Fin 2, Fin 3],
         last_anti_zero = [Fin 4, Fin 4], last_docs = [Fin 10, Fin 20],
         last_queries = [Fin 5, Fin 6], mse_margin = False,
         last_distilloss = [Fin 0, Fin 1]\<rparr>
        \<lparr>epoch = Some (1234/1000), global_step = 7, log_history = []\<rparr> Map.empty)) ''ce_loss''
     = Some (FloatV (Fin 2))
   \<and> snd (snd (DistilTrainer_log
        \<lparr>n_negatives = 1, splade_doc = False, dense = False, lambda_d = 1, lambda_q = 1,
         step = 2, last_celoss = [Fin 1, Fin 3], last_flops = [Fin 2, Fin 3],
         last_anti_zero = [Fin 4, Fin 4], last_docs = [Fin 10, Fin 20],
         last_queries = [Fin 5, Fin 6], mse_margin = False,
         last_distilloss = [Fin 0, Fin 1]\<rparr>
        \<lparr>epoch = Some (1234/1000), global_step = 7, log_history = []\<rparr> Map.empty)) ''L0_d''
     = Some (FloatV (Fin 15))
   \<and> snd (snd (FirstStageTrainer_log
        \<lparr>n_negatives = 1, splade_doc = False, dense = False, lambda_d = 1, lambda_q = 1,
         step = 2, last_celoss = [Fin 1, Fin 3], last_flops = [Fin 2, Fin 3],
         last_anti_zero = [Fin 4, Fin 4], last_docs = [Fin 10, Fin 20],
         last_queries = [Fin 5, Fin 6]\<rparr>
        \<lparr>epoch = Some (1234/1000), global_step = 7, log_history = []\<rparr> Map.empty)) ''flops_loss''
     = Some (FloatV (Fin (5/2)))
   \<and> snd (snd (FirstStageTrainer_log
        \<lparr>n_negatives = 1, splade_doc = False, dense = False, lambda_d = 1, lambda_q = 1,
         step = 2, last_celoss = [Fin 1, Fin 3], last_flops = [Fin 2, Fin 3],
         last_anti_zero = [Fin 4, Fin 4], last_docs = [Fin 10, Fin 20],
         last_queries = [Fin 5, Fin 6]\<rparr>
        \<lparr>epoch = Some (1234/1000), global_step = 7, log_history = []\<rparr> Map.empty)) ''epoch''
     = Some (FloatV (Fin (123/100)))
   \<and> snd (snd (RerankerTrainer2_log
        \<lparr>rr_n_negatives = 1, rr_mse_margin = True, rr_last_celoss = Some (Fin 1),
         rr_last_distilloss = Some (Fin 4)\<rparr>
        \<lparr>epoch = Some (1234/1000), global_step = 7, log_history = []\<rparr> Map.empty)) ''distil_loss''
     = Some (FloatV (Fin 4))"
proof -
  let ?D = "\<lparr>n_negatives = 1, splade_doc = False, dense = False, lambda_d = 1, lambda_q = 1,
         step = 2, last_celoss = [Fin 1, Fin 3], last_flops = [Fin 2, Fin 3],
         last_anti_zero = [Fin 4, Fin 4], last_docs = [Fin 10, Fin 20],
         last_queries = [Fin 5, Fin 6], mse_margin = False,
         last_distilloss = [Fin 0, Fin 1]\<rparr>"
  let ?F = "\<lparr>n_negatives = 1, splade_doc = False, dense = False, lambda_d = 1, lambda_q = 1,
         step = 2, last_celoss = [Fin 1, Fin 3], last_flops = [Fin 2, Fin 3],
         last_anti_zero = [Fin 4, Fin 4], last_docs = [Fin 10, Fin 20],
         last_queries = [Fin 5, Fin 6]\<rparr>"
  let ?R = "\<lparr>rr_n_negatives = 1, rr_mse_margin = True, rr_last_celoss = Some (Fin 1),
         rr_last_distilloss = Some (Fin 4)\<rparr>"
  let ?S = "\<lparr>epoch = Some (1234/1000), global_step = 7, log_history = []\<rparr>"
  note t = log_reports_means_and_clears [where dself = ?D and fself = ?F and rself = ?R
      and state = ?S and logs = Map.empty and e = "1234/1000" and c = "Fin 1" and d = "Fin 4"
      and vs = "[1, 3]"]
  have nd: "\<not> dense ?D" "\<not> dense ?F" by simp_all
  have ep: "epoch ?S = Some (1234/1000)" by simp
  have rr: "rr_last_celoss ?R = Some (Fin 1) \<and> rr_last_distilloss ?R = Some (Fin 4)" by simp
  have r: "round2 (1234/1000) = 123/100"
    by (simp add: round2_def round_half_even_def Let_def)
  have a0: "snd (snd (DistilTrainer_log ?D ?S Map.empty)) ''ce_loss''
      = Some (FloatV (fmean (last_celoss ?D)))"
    using t by blast
  have a: "snd (snd (DistilTrainer_log ?D ?S Map.empty)) ''ce_loss'' = Some (FloatV (Fin 2))"
    unfolding a0 by (simp add: fmean_def mean_def)
  have b0: "snd (snd (DistilTrainer_log ?D ?S Map.empty)) ''L0_d''
      = Some (FloatV (fmean (last_docs ?D)))"
    using t nd by blast
  have b: "snd (snd (DistilTrainer_log ?D ?S Map.empty)) ''L0_d'' = Some (FloatV (Fin 15))"
    unfolding b0 by (simp add: fmean_def mean_def)
  have c0: "snd (snd (FirstStageTrainer_log ?F ?S Map.empty)) ''flops_loss''
      = Some (FloatV (fmean (last_flops ?F)))"
    using t nd by blast
  have c: "snd (snd (FirstStageTrainer_log ?F ?S Map.empty)) ''flops_loss''
      = Some (FloatV (Fin (5/2)))"
    unfolding c0 by (simp add: fmean_def mean_def)
  have d0: "snd (snd (FirstStageTrainer_log ?F ?S Map.empty)) ''epoch''
      = Some (FloatV (Fin (round2 (1234/1000))))"
    using t ep by blast
  have d: "snd (snd (FirstStageTrainer_log ?F ?S Map.empty)) ''epoch''
      = Some (FloatV (Fin (123/100)))"
    unfolding d0 r ..
  have e: "snd (snd (RerankerTrainer2_log ?R ?S Map.empty)) ''distil_loss''
      = Some (FloatV (Fin 4))"
    using t rr by blast
  from a b c d e show ?thesis by blast
qed

text \<open>
  The statement of C4 fails on \<open>RerankerTrainer2\<close>: after two steps whose
  distillation losses are 1 and 4, the log hook reports 4, the value of the last step
  alone, and not the mean 5/2 of the values since the previous flush.
\<close>

theorem reranker2_log_single_step_counterexample:
  "rr_last_distilloss (fst (snd (RerankerTrainer2_compute_loss
        (\<lambda>b. case b ''x'' of None \<Rightarrow> Inl ModelError | Some v \<Rightarrow> Inr (map (\<lambda>a. [a]) v))
        \<lparr>rr_n_negatives = 1, rr_mse_margin = True, rr_last_celoss = None,
         rr_last_distilloss = None\<rparr>
        [''x'' \<mapsto> [1, 0], ''scores'' \<mapsto> [0, 0]]))) = Some (Fin 1)
   \<and> rr_last_distilloss (fst (snd (RerankerTrainer2_compute_loss
        (\<lambda>b. case b ''x'' of None \<Rightarrow> Inl ModelError | Some v \<Rightarrow> Inr (map (\<lambda>a. [a]) v))
        (fst (snd (RerankerTrainer2_compute_loss
          (\<lambda>b. case b ''x'' of None \<Rightarrow> Inl ModelError | Some v \<Rightarrow> Inr (map (\<lambda>a. [a]) v))
          \<lparr>rr_n_negatives = 1, rr_mse_margin = True, rr_last_celoss = None,
           rr_last_distilloss = None\<rparr>
          [''x'' \<mapsto> [1, 0], ''scores'' \<mapsto> [0, 0]])))
        [''x'' \<mapsto> [2, 0], ''scores'' \<mapsto> [0, 0]]))) = Some (Fin 4)
   \<and> snd (snd (RerankerTrainer2_log
        (fst (snd (RerankerTrainer2_compute_loss
          (\<lambda>b. case b ''x'' of None \<Rightarrow> Inl ModelError | Some v \<Rightarrow> Inr (map (\<lambda>a. [a]) v))
          (fst (snd (RerankerTrainer2_compute_loss
            (\<lambda>b. case b ''x'' of None \<Rightarrow> Inl ModelError | Some v \<Rightarrow> Inr (map (\<lambda>a. [a]) v))
            \<lparr>rr_n_negatives = 1, rr_mse_margin = True, rr_last_celoss = None,
             rr_last_distilloss = None\<rparr>
            [''x'' \<mapsto> [1, 0], ''scores'' \<mapsto> [0, 0]])))
          [''x'' \<mapsto> [2, 0], ''scores'' \<mapsto> [0, 0]])))
        \<lparr>epoch = None, global_step = 2, log_history = []\<rparr> Map.empty)) ''distil_loss''
     = Some (FloatV (Fin 4))
   \<and> fmean [Fin 1, Fin 4] = Fin (5/2)"
proof -
  let ?M = "(\<lambda>b. case b ''x'' of None \<Rightarrow> Inl ModelError | Some v \<Rightarrow> Inr (map (\<lambda>a. [a]) v))
      :: cross_model"
  let ?T0 = "\<lparr>rr_n_negatives = 1, rr_mse_margin = True, rr_last_celoss = None,
         rr_last_distilloss = None\<rparr>"
  let ?I1 = "[''x'' \<mapsto> [1, 0], ''scores'' \<mapsto> [0, 0 :: real]]"
  let ?I2 = "[''x'' \<mapsto> [2, 0], ''scores'' \<mapsto> [0, 0 :: real]]"
  let ?T1 = "fst (snd (RerankerTrainer2_compute_loss ?M ?T0 ?I1))"
  let ?T2 = "fst (snd (RerankerTrainer2_compute_loss ?M ?T1 ?I2))"
  have cs1: "cross_scores 1 [[1], [0]] = Inr [[1, 0]]"
    by (simp add: cross_scores_def first_column_def view_rows_def)
  have cs2: "cross_scores 1 [[2], [0]] = Inr [[2, 0]]"
    by (simp add: cross_scores_def first_column_def view_rows_def)
  have d1: "distil_term True [[1, 0]] [[0, 0]] = Fin 1"
    by (simp add: distil_term_def margin_mse_def margins_def mean_def fmean_def)
  have d2: "distil_term True [[2, 0]] [[0, 0]] = Fin 4"
    by (simp add: distil_term_def margin_mse_def margins_def mean_def fmean_def)
  have p1: "?I1 ''scores'' = Some [0, 0]" and q1: "?I2 ''scores'' = Some [0, 0]"
    by simp_all
  have p2: "?M (?I1(''scores'' := None)) = Inr [[1], [0]]"
    and q2: "?M (?I2(''scores'' := None)) = Inr [[2], [0]]"
    by simp_all
  have p3: "cross_scores (rr_n_negatives ?T0) [[1], [0]] = Inr [[1, 0]]"
    using cs1 by simp
  have p5: "length [0, 0 :: real] = length [[1, 0 :: real]] * (rr_n_negatives ?T0 + 1)"
    by simp
  have t1: "?T1 = \<lparr>rr_n_negatives = 1, rr_mse_margin = True,
       rr_last_celoss = Some (mean (map ce0 [[1, 0]])), rr_last_distilloss = Some (Fin 1)\<rparr>"
    unfolding rr2_success [where model = ?M and inputs = ?I1, OF p1 p2 p3
        cross_scores_ce_defined [OF p3] p5]
    using d1 by (simp add: Let_def)
  let ?U = "\<lparr>rr_n_negatives = 1, rr_mse_margin = True,
       rr_last_celoss = Some (mean (map ce0 [[1, 0]])), rr_last_distilloss = Some (Fin 1)\<rparr>"
  have q3: "cross_scores (rr_n_negatives ?U) [[2], [0]] = Inr [[2, 0]]"
    using cs2 by simp
  have q5: "length [0, 0 :: real] = length [[2, 0 :: real]] * (rr_n_negatives ?U + 1)"
    by simp
  have t2: "?T2 = \<lparr>rr_n_negatives = 1, rr_mse_margin = True,
       rr_last_celoss = Some (mean (map ce0 [[2, 0]])), rr_last_distilloss = Some (Fin 4)\<rparr>"
    unfolding t1
    unfolding rr2_success [where model = ?M and inputs = ?I2, OF q1 q2 q3
        cross_scores_ce_defined [OF q3] q5]
    using d2 by (simp add: Let_def)
  have a: "rr_last_distilloss ?T1 = Some (Fin 1)"
    unfolding t1 by simp
  have b: "rr_last_distilloss ?T2 = Some (Fin 4)"
    unfolding t2 by simp
  have c: "snd (snd (RerankerTrainer2_log ?T2
        \<lparr>epoch = None, global_step = 2, log_history = []\<rparr> Map.empty)) ''distil_loss''
     = Some (FloatV (Fin 4))"
    unfolding t2 by (simp add: rr2_log_values)
  have d: "fmean [Fin 1, Fin 4] = Fin (5/2)"
    by (simp add: fmean_def mean_def)
  from a b c d show ?thesis by blast
qed

subsection \<open>Restoring a checkpoint\<close>







end
